theory Spec2Isabelle
  imports Main "HOL-Library.Word"
begin

section \<open>Data model of the post store (package repository)\<close>

text \<open>
  A Go \<open>error\<close> value is identified by its message; \<open>None\<close> is \<open>nil\<close>.
  \<open>sql.NullString\<close> and \<open>sql.NullInt32\<close> keep both of their fields, because the
  handlers read \<open>ImagePath.String\<close> without looking at \<open>ImagePath.Valid\<close>.
\<close>

type_synonym go_error = string

record NullString =
  String_ns :: string
  Valid_ns :: bool

record NullInt32 =
  Int32_ni :: "32 word"
  Valid_ni :: bool

definition scan_string :: "string option \<Rightarrow> NullString" where
  "scan_string v = (case v of None \<Rightarrow> \<lparr>String_ns = [], Valid_ns = False\<rparr>
                    | Some s \<Rightarrow> \<lparr>String_ns = s, Valid_ns = True\<rparr>)"

definition scan_int32 :: "32 word option \<Rightarrow> NullInt32" where
  "scan_int32 v = (case v of None \<Rightarrow> \<lparr>Int32_ni = 0, Valid_ni = False\<rparr>
                   | Some w \<Rightarrow> \<lparr>Int32_ni = w, Valid_ni = True\<rparr>)"

text \<open>
  Modelled from the spec: the table declarations (package db/migration) are not among the
  sources. Each table has the columns that the queries of the post repository name; a column
  scanned into a plain Go \<open>int\<close> or \<open>string\<close> is not nullable, a column scanned into
  \<open>sql.NullString\<close> or \<open>sql.NullInt32\<close> is. Instants (\<open>time.Time\<close>) are integers.
\<close>

record post_row =
  id_p :: int
  author_id_p :: int
  category_id_p :: int
  title_p :: string
  desc_p :: string
  created_at_p :: int

record user_row =
  id_u :: int
  name_u :: string
  role_u :: string
  avatar_u :: "string option"

record user_detail_row =
  user_id_ud :: int
  institute_ud :: "string option"
  major_ud :: "string option"
  batch_ud :: "32 word option"

record like_row =
  id_pl :: int
  post_id_pl :: int
  user_id_pl :: int

record comment_row =
  id_c :: int
  post_id_c :: int

record questionnaire_row =
  post_id_q :: int
  link_q :: "string option"

record image_row =
  id_pi :: "32 word"
  post_id_pi :: int
  path_pi :: "string option"

record db =
  posts :: "post_row list"
  users :: "user_row list"
  user_details :: "user_detail_row list"
  post_likes :: "like_row list"
  comments :: "comment_row list"
  questionnaires :: "questionnaire_row list"
  post_images :: "image_row list"

text \<open>
  The driver calls of one repository method that can fail, each with the error it returns
  (\<open>None\<close>: the call succeeds): \<open>db.Begin\<close>, the first \<open>tx.Exec\<close>/\<open>tx.Query\<close>, the
  second statement or the row scan, and \<open>tx.Commit\<close>.
\<close>

record faults =
  f_begin :: "go_error option"
  f_exec :: "go_error option"
  f_exec2 :: "go_error option"
  f_commit :: "go_error option"

definition no_faults :: faults where
  "no_faults = \<lparr>f_begin = None, f_exec = None, f_exec2 = None, f_commit = None\<rparr>"

definition ErrPostNotFound :: go_error where
  "ErrPostNotFound = ''post not found''"

subsection \<open>Writes: a transaction works on a copy and publishes it on commit\<close>

definition next_post_id :: "post_row list \<Rightarrow> int" where
  "next_post_id ps = fold max (map id_p ps) 0 + 1"

definition next_image_id :: "image_row list \<Rightarrow> 32 word" where
  "next_image_id is = fold max (map id_pi is) 0 + 1"

text \<open>\<open>InsertPost\<close>: every failure returns \<open>(0, err)\<close> and the deferred rollback drops the row.\<close>

definition InsertPost ::
  "faults \<Rightarrow> int \<Rightarrow> db \<Rightarrow> int \<Rightarrow> int \<Rightarrow> string \<Rightarrow> string \<Rightarrow> (int \<times> go_error option) \<times> db" where
  "InsertPost f now d authorID categoryID title description =
     (case f_begin f of Some e \<Rightarrow> ((0, Some e), d)
      | None \<Rightarrow>
     (case f_exec f of Some e \<Rightarrow> ((0, Some e), d)
      | None \<Rightarrow>
        let new = next_post_id (posts d);
            tx = d\<lparr>posts := posts d @
                   [\<lparr>id_p = new, author_id_p = authorID, category_id_p = categoryID,
                     title_p = title, desc_p = description, created_at_p = now\<rparr>]\<rparr>
        in (case f_exec2 f of Some e \<Rightarrow> ((0, Some e), d)
            | None \<Rightarrow>
           (case f_commit f of Some e \<Rightarrow> ((0, Some e), d)
            | None \<Rightarrow> ((new, None), tx)))))"

text \<open>
  \<open>InsertPostImage\<close>: the result of \<open>tx.Exec\<close> and of \<open>tx.Commit\<close> is bound to a variable
  named \<open>error\<close>, and both failure branches \<open>return err\<close>, the variable of \<open>db.Begin\<close>.
\<close>

definition InsertPostImage :: "faults \<Rightarrow> db \<Rightarrow> int \<Rightarrow> string \<Rightarrow> go_error option \<times> db" where
  "InsertPostImage f d postID path =
     (let err = f_begin f in
      if err \<noteq> None then (err, d)
      else
        let error = f_exec f in
        if error \<noteq> None then (err, d)
        else
          let tx = d\<lparr>post_images := post_images d @
                     [\<lparr>id_pi = next_image_id (post_images d), post_id_pi = postID,
                       path_pi = Some path\<rparr>]\<rparr>;
              error = f_commit f
          in if error \<noteq> None then (err, d) else (None, tx))"

definition UpdatePost ::
  "faults \<Rightarrow> db \<Rightarrow> int \<Rightarrow> int \<Rightarrow> string \<Rightarrow> string \<Rightarrow> go_error option \<times> db" where
  "UpdatePost f d postID categoryID title description =
     (case f_begin f of Some e \<Rightarrow> (Some e, d)
      | None \<Rightarrow>
     (case f_exec f of Some e \<Rightarrow> (Some e, d)
      | None \<Rightarrow>
        let tx = d\<lparr>posts := map (\<lambda>p. if id_p p = postID
                     then p\<lparr>category_id_p := categoryID, title_p := title, desc_p := description\<rparr>
                     else p) (posts d)\<rparr>
        in (case f_commit f of Some e \<Rightarrow> (Some e, d) | None \<Rightarrow> (None, tx))))"

text \<open>\<open>DeletePostByID\<close>: two statements in one transaction, the posts row first.\<close>

definition DeletePostByID :: "faults \<Rightarrow> db \<Rightarrow> int \<Rightarrow> go_error option \<times> db" where
  "DeletePostByID f d postID =
     (case f_begin f of Some e \<Rightarrow> (Some e, d)
      | None \<Rightarrow>
     (case f_exec f of Some e \<Rightarrow> (Some e, d)
      | None \<Rightarrow>
        let tx1 = d\<lparr>posts := filter (\<lambda>p. id_p p \<noteq> postID) (posts d)\<rparr>
        in (case f_exec2 f of Some e \<Rightarrow> (Some e, d)
            | None \<Rightarrow>
              let tx2 = tx1\<lparr>post_images :=
                              filter (\<lambda>i. post_id_pi i \<noteq> postID) (post_images tx1)\<rparr>
              in (case f_commit f of Some e \<Rightarrow> (Some e, d) | None \<Rightarrow> (None, tx2)))))"

text \<open>\<open>FetchAuthorIDByPostID\<close>: \<open>QueryRow(...).Scan\<close> gives \<open>sql.ErrNoRows\<close> on no row.\<close>

definition FetchAuthorIDByPostID :: "faults \<Rightarrow> db \<Rightarrow> int \<Rightarrow> int \<times> go_error option" where
  "FetchAuthorIDByPostID f d postID =
     (case f_begin f of Some e \<Rightarrow> (0, Some e)
      | None \<Rightarrow>
     (case f_exec f of Some e \<Rightarrow> (0, Some e)
      | None \<Rightarrow>
     (case filter (\<lambda>p. id_p p = postID) (posts d) of
        [] \<Rightarrow> (0, Some ErrPostNotFound)
      | p # _ \<Rightarrow>
        (case f_commit f of Some e \<Rightarrow> (0, Some e) | None \<Rightarrow> (author_id_p p, None)))))"

text \<open>The invariant of the data model: an image always references an existing post.\<close>

definition images_reference_posts :: "db \<Rightarrow> bool" where
  "images_reference_posts d = list_all (\<lambda>i. post_id_pi i \<in> set (map id_p (posts d))) (post_images d)"

definition empty_db :: db where
  "empty_db = \<lparr>posts = [], users = [], user_details = [], post_likes = [], comments = [],
               questionnaires = [], post_images = []\<rparr>"

subsection \<open>Reads: the two wide join queries\<close>

record PostDetail =
  ID_pd :: int
  IsLike_pd :: bool
  AuthorID_pd :: int
  AuthorName_pd :: string
  AuthorRole_pd :: string
  AuthorAvatar_pd :: NullString
  AuthorInstitution_pd :: NullString
  AuthorMajor_pd :: NullString
  AuthorBatch_pd :: NullInt32
  CategoryID_pd :: int
  Title_pd :: string
  Description_pd :: string
  CreatedAt_pd :: int
  CommentCount_pd :: int
  LikeCount_pd :: int
  ImageID_pd :: NullInt32
  ImagePath_pd :: NullString

text \<open>A LEFT JOIN keeps a left row with no match once, with NULLs on the right.\<close>

definition left_join :: "'b list \<Rightarrow> 'b option list" where
  "left_join ms = (if ms = [] then [None] else map Some ms)"

text \<open>GROUP BY: each group with its first row, which supplies the bare columns.\<close>

fun group_by :: "('a \<Rightarrow> 'k) \<Rightarrow> 'a list \<Rightarrow> ('a \<times> 'a list) list" where
  "group_by k [] = []"
| "group_by k (x # xs) =
     (x, x # filter (\<lambda>y. k y = k x) xs) # group_by k (filter (\<lambda>y. k y \<noteq> k x) xs)"

text \<open>SQLite: a negative LIMIT is no limit, a negative OFFSET is no offset.\<close>

definition sqlite_limit :: "int \<Rightarrow> int \<Rightarrow> 'a list \<Rightarrow> 'a list" where
  "sqlite_limit lim off xs =
     (let ys = drop (nat off) xs in if lim < 0 then ys else take (nat lim) ys)"

record p_row =
  post_pr :: post_row
  comment_count_pr :: int

record inner_row =
  p_ir :: p_row
  u_ir :: user_row
  ud_ir :: "user_detail_row option"
  pl_ir :: "like_row option"
  q_ir :: "questionnaire_row option"

record up_row =
  id_up :: int
  author_id_up :: int
  author_name_up :: string
  author_role_up :: string
  author_avatar_up :: "string option"
  author_institution_up :: "string option"
  author_major_up :: "string option"
  author_batch_up :: "32 word option"
  category_id_up :: int
  title_up :: string
  desc_up :: string
  created_at_up :: int
  comment_count_up :: int
  like_count_up :: int

text \<open>
  \<open>FetchAllPost\<close> pastes two texts into its statement: the filter after
  \<open>WHERE q.link IS NULL\<close> and the ORDER BY key. What the database makes of them is a
  parameter. \<open>is_condition\<close> says that a WHERE text is one condition and \<open>is_ordering\<close>
  that an ORDER BY text is a list of ordering terms, so that the statement keeps the shape
  it is written in; \<open>where_sem\<close> is then the truth of the condition on a joined row and
  \<open>order_sem\<close> the rearrangement of the groups, and both may read every table, as a
  subquery in the text can. \<open>other_statement\<close> is what the database returns for pasted
  texts that change the shape of the statement.
\<close>

type_synonym up_group = "inner_row \<times> inner_row list"

record sql_engine =
  is_condition :: "string \<Rightarrow> bool"
  is_ordering :: "string \<Rightarrow> bool"
  where_sem :: "string \<Rightarrow> db \<Rightarrow> inner_row \<Rightarrow> bool"
  order_sem :: "string \<Rightarrow> db \<Rightarrow> up_group list \<Rightarrow> up_group list"
  other_statement :: "string \<Rightarrow> string \<Rightarrow> int \<Rightarrow> int \<Rightarrow> int \<Rightarrow> db \<Rightarrow> PostDetail list"

text \<open>The innermost SELECT: posts with their comment count.\<close>

definition subquery_p :: "db \<Rightarrow> p_row list" where
  "subquery_p d =
     map (\<lambda>(r, g). \<lparr>post_pr = fst r, comment_count_pr = int (length (filter (\<lambda>x. snd x \<noteq> None) g))\<rparr>)
       (group_by (\<lambda>x. id_p (fst x))
          [(p, c). p \<leftarrow> posts d, c \<leftarrow> left_join (filter (\<lambda>c. post_id_c c = id_p p) (comments d))])"

text \<open>The SELECT named \<open>up\<close>, before ORDER BY and LIMIT: joins, WHERE, GROUP BY p.id.\<close>

definition up_of :: "inner_row \<Rightarrow> inner_row list \<Rightarrow> up_row" where
  "up_of r g =
     \<lparr>id_up = id_p (post_pr (p_ir r)), author_id_up = id_u (u_ir r),
      author_name_up = name_u (u_ir r), author_role_up = role_u (u_ir r),
      author_avatar_up = avatar_u (u_ir r),
      author_institution_up = (case ud_ir r of None \<Rightarrow> None | Some x \<Rightarrow> institute_ud x),
      author_major_up = (case ud_ir r of None \<Rightarrow> None | Some x \<Rightarrow> major_ud x),
      author_batch_up = (case ud_ir r of None \<Rightarrow> None | Some x \<Rightarrow> batch_ud x),
      category_id_up = category_id_p (post_pr (p_ir r)), title_up = title_p (post_pr (p_ir r)),
      desc_up = desc_p (post_pr (p_ir r)), created_at_up = created_at_p (post_pr (p_ir r)),
      comment_count_up = comment_count_pr (p_ir r),
      like_count_up = int (length (filter (\<lambda>x. pl_ir x \<noteq> None) g))\<rparr>"

definition up_groups :: "sql_engine \<Rightarrow> db \<Rightarrow> string \<Rightarrow> up_group list" where
  "up_groups eng d flt =
     group_by (\<lambda>r. id_p (post_pr (p_ir r)))
       (filter (where_sem eng (''q.link IS NULL '' @ flt) d)
          [\<lparr>p_ir = p, u_ir = u, ud_ir = ud, pl_ir = pl, q_ir = q\<rparr>.
             p \<leftarrow> subquery_p d,
             u \<leftarrow> filter (\<lambda>u. author_id_p (post_pr p) = id_u u) (users d),
             ud \<leftarrow> left_join (filter (\<lambda>x. id_u u = user_id_ud x) (user_details d)),
             pl \<leftarrow> left_join (filter (\<lambda>x. post_id_pl x = id_p (post_pr p)) (post_likes d)),
             q \<leftarrow> left_join (filter (\<lambda>x. post_id_q x = id_p (post_pr p)) (questionnaires d))])"

text \<open>
  The page of posts: ORDER BY, then LIMIT and OFFSET, still inside the subquery, and the
  columns that the subquery selects.
\<close>

definition up_page :: "sql_engine \<Rightarrow> db \<Rightarrow> int \<Rightarrow> int \<Rightarrow> string \<Rightarrow> string \<Rightarrow> up_row list" where
  "up_page eng d lim off orderBy flt =
     map (\<lambda>(r, g). up_of r g) (sqlite_limit lim off (order_sem eng orderBy d (up_groups eng d flt)))"

definition scan_all :: "db \<Rightarrow> int \<Rightarrow> up_row \<Rightarrow> image_row option \<Rightarrow> PostDetail" where
  "scan_all d authorID up pi =
     \<lparr>ID_pd = id_up up,
      IsLike_pd = list_ex (\<lambda>l. post_id_pl l = id_up up \<and> user_id_pl l = authorID) (post_likes d),
      AuthorID_pd = author_id_up up, AuthorName_pd = author_name_up up,
      AuthorRole_pd = author_role_up up, AuthorAvatar_pd = scan_string (author_avatar_up up),
      AuthorInstitution_pd = scan_string (author_institution_up up),
      AuthorMajor_pd = scan_string (author_major_up up),
      AuthorBatch_pd = scan_int32 (author_batch_up up),
      CategoryID_pd = category_id_up up, Title_pd = title_up up, Description_pd = desc_up up,
      CreatedAt_pd = created_at_up up, CommentCount_pd = comment_count_up up,
      LikeCount_pd = like_count_up up,
      ImageID_pd = scan_int32 (map_option id_pi pi),
      ImagePath_pd = scan_string (case pi of None \<Rightarrow> None | Some i \<Rightarrow> path_pi i)\<rparr>"

text \<open>The outer SELECT: the page LEFT JOINed with the image rows of each of its posts.\<close>

definition all_rows :: "sql_engine \<Rightarrow> db \<Rightarrow> int \<Rightarrow> int \<Rightarrow> int \<Rightarrow> string \<Rightarrow> string \<Rightarrow> PostDetail list" where
  "all_rows eng d lim off authorID orderBy flt =
     [scan_all d authorID up pi.
        up \<leftarrow> up_page eng d lim off orderBy flt,
        pi \<leftarrow> left_join (filter (\<lambda>i. id_up up = post_id_pi i) (post_images d))]"

definition FetchAllPost ::
  "faults \<Rightarrow> sql_engine \<Rightarrow> db \<Rightarrow> int \<Rightarrow> int \<Rightarrow> int \<Rightarrow> string \<Rightarrow> string
     \<Rightarrow> PostDetail list \<times> go_error option" where
  "FetchAllPost f eng d lim off authorID orderBy flt =
     (case f_begin f of Some e \<Rightarrow> ([], Some e)
      | None \<Rightarrow>
     (case f_exec f of Some e \<Rightarrow> ([], Some e)
      | None \<Rightarrow>
        let rows = (if is_condition eng (''q.link IS NULL '' @ flt) \<and> is_ordering eng orderBy
                    then all_rows eng d lim off authorID orderBy flt
                    else other_statement eng flt orderBy lim off authorID d) in
        if rows \<noteq> [] \<and> f_exec2 f \<noteq> None then ([], f_exec2 f)
        else (case f_commit f of Some e \<Rightarrow> ([], Some e) | None \<Rightarrow> (rows, None))))"




text \<open>A small database: post 1 with two images and two likes, post 2 with one comment.\<close>

definition example_db :: db where
  "example_db = empty_db
     \<lparr>posts := [\<lparr>id_p = 1, author_id_p = 5, category_id_p = 2, title_p = ''first'',
                  desc_p = ''one'', created_at_p = 10\<rparr>,
                \<lparr>id_p = 2, author_id_p = 6, category_id_p = 3, title_p = ''second'',
                  desc_p = ''two'', created_at_p = 11\<rparr>],
      users := [\<lparr>id_u = 5, name_u = ''ann'', role_u = ''user'', avatar_u = None\<rparr>,
                \<lparr>id_u = 6, name_u = ''bob'', role_u = ''user'', avatar_u = Some ''b.png''\<rparr>],
      post_likes := [\<lparr>id_pl = 1, post_id_pl = 1, user_id_pl = 5\<rparr>,
                     \<lparr>id_pl = 2, post_id_pl = 1, user_id_pl = 6\<rparr>],
      comments := [\<lparr>id_c = 1, post_id_c = 2\<rparr>],
      post_images := [\<lparr>id_pi = 1, post_id_pi = 1, path_pi = Some ''media/post/1-1-a.png''\<rparr>,
                      \<lparr>id_pi = 2, post_id_pi = 1, path_pi = Some ''media/post/1-2-b.png''\<rparr>]\<rparr>"

section \<open>The handlers (package api)\<close>

subsection \<open>Responses, identity and query parameters\<close>

record AuthorPostResponse =
  ID_a :: int
  Name_a :: string
  Role_a :: string
  Institute_a :: string
  Major_a :: string
  Batch_a :: int
  ProfileImage_a :: string

record PostResponse =
  ID_r :: int
  IsLike_r :: bool
  IsAuthor_r :: bool
  Author_r :: AuthorPostResponse
  CategoryID_r :: int
  Title_r :: string
  Description_r :: string
  CreatedAt_r :: string
  CommentCount_r :: int
  LikeCount_r :: int

record PostImageResponse =
  ID_i :: int
  URL_i :: string

text \<open>
  A Go slice is \<open>nil\<close> (\<open>None\<close>: the JSON encoder writes \<open>null\<close>) or a list
  (\<open>Some []\<close> is the empty slice \<open>make([]T, 0)\<close>, written \<open>[]\<close>).
\<close>

record DetailPostResponse =
  PostResponse_d :: PostResponse
  Images_d :: "PostImageResponse list option"

text \<open>
  Modelled from the spec: \<open>repository.Questionnaire\<close> is declared in a file that is not
  among the sources; these are the fields the handlers name.
\<close>

record Questionnaire =
  ID_qn :: int
  AuthorId_qn :: int
  CategoryID_qn :: int
  Title_qn :: string
  Description_qn :: string
  Link_qn :: string
  Reward_qn :: string

definition zero_Questionnaire :: Questionnaire where
  "zero_Questionnaire = \<lparr>ID_qn = 0, AuthorId_qn = 0, CategoryID_qn = 0, Title_qn = [],
                          Description_qn = [], Link_qn = [], Reward_qn = []\<rparr>"

datatype body =
    ErrorPostResponse string
  | SuccessPostResponse string
  | CreatePostResponse int string
  | EmptyStrings
  | PostList "DetailPostResponse list"
  | PostDetailBody DetailPostResponse
  | H_error string
  | H_message string
  | QuestionnaireList "Questionnaire list"
  | QuestionnaireBody Questionnaire

text \<open>One call of \<open>ctx.JSON\<close> or \<open>c.AbortWithStatusJSON\<close>: the status and the body.\<close>

type_synonym response = "nat \<times> body"

text \<open>
  \<open>getUserIdFromToken\<close> is not among the sources. Its outcome for the request at hand is a
  parameter: an id with a nil error, an id with an error, or a panic.
\<close>

datatype token = TokenOK int | TokenErr int go_error | TokenPanic

definition getUserIDAvoidPanic :: "token \<Rightarrow> int" where
  "getUserIDAvoidPanic t = (case t of TokenOK i \<Rightarrow> i | TokenErr i e \<Rightarrow> i | TokenPanic \<Rightarrow> 0)"

definition DefaultQuery :: "string option \<Rightarrow> string \<Rightarrow> string" where
  "DefaultQuery v dflt = (case v of None \<Rightarrow> dflt | Some s \<Rightarrow> s)"

text \<open>\<open>strconv.Atoi\<close>: an optional sign and decimal digits, within 64 bits.\<close>

definition is_digit :: "char \<Rightarrow> bool" where
  "is_digit c = (c \<in> set ''0123456789'')"

definition digits_val :: "string \<Rightarrow> nat" where
  "digits_val ds = foldl (\<lambda>a c. 10 * a + (of_char c - 48)) 0 ds"

definition Atoi :: "string \<Rightarrow> int \<times> go_error option" where
  "Atoi s =
     (let neg = (case s of c # _ \<Rightarrow> c = CHR ''-'' | [] \<Rightarrow> False);
          ds = (case s of c # r \<Rightarrow> if c = CHR ''-'' \<or> c = CHR ''+'' then r else s | [] \<Rightarrow> s)
      in if ds = [] \<or> \<not> list_all is_digit ds then (0, Some ''invalid syntax'')
         else let v = (if neg then - int (digits_val ds) else int (digits_val ds))
              in if v < - (2 ^ 63) then (- (2 ^ 63), Some ''value out of range'')
                 else if 2 ^ 63 - 1 < v then (2 ^ 63 - 1, Some ''value out of range'')
                 else (v, None))"

definition ParseBool :: "string \<Rightarrow> bool \<times> go_error option" where
  "ParseBool s =
     (if s \<in> set [''1'', ''t'', ''T'', ''TRUE'', ''true'', ''True''] then (True, None)
      else if s \<in> set [''0'', ''f'', ''F'', ''FALSE'', ''false'', ''False''] then (False, None)
      else (False, Some ''invalid syntax''))"

text \<open>The verb \<open>%d\<close> of \<open>fmt.Sprintf\<close>.\<close>

function nat_dec :: "nat \<Rightarrow> string" where
  "nat_dec n = (if n < 10 then [char_of (48 + n)] else nat_dec (n div 10) @ [char_of (48 + n mod 10)])"
  by pat_completeness auto
termination
  by (relation "measure id") auto

declare nat_dec.simps [simp del]

definition int_dec :: "int \<Rightarrow> string" where
  "int_dec i = (if i < 0 then CHR ''-'' # nat_dec (nat (- i)) else nat_dec (nat i))"

record list_query =
  offset_q :: "string option"
  limit_q :: "string option"
  sort_by_q :: "string option"
  search_title_q :: "string option"
  category_id_q :: "string option"
  me_q :: "string option"

definition no_query :: list_query where
  "no_query = \<lparr>offset_q = None, limit_q = None, sort_by_q = None, search_title_q = None,
               category_id_q = None, me_q = None\<rparr>"

subsection \<open>The list handler \<open>readPosts\<close>\<close>

definition readPosts_sort :: "string \<Rightarrow> string option" where
  "readPosts_sort sortBy =
     (if sortBy = ''newest'' then Some ''created_at DESC''
      else if sortBy = ''oldest'' then Some ''created_at''
      else if sortBy = ''most_liked'' then Some ''like_count DESC''
      else if sortBy = ''most_commented'' then Some ''comment_count DESC''
      else None)"

text \<open>
  The first part of \<open>readPosts\<close>, up to the call of the store: either the response of an
  early return, or the arguments \<open>(limit, offset, authorID, sortBy, filterQuery)\<close> of
  \<open>FetchAllPost\<close>. The identity comes from \<open>getUserIDAvoidPanic\<close>, which drops the error.
\<close>

definition readPosts_query :: "token \<Rightarrow> list_query \<Rightarrow> response + (int \<times> int \<times> int \<times> string \<times> string)" where
  "readPosts_query tok q =
     (let authorID = getUserIDAvoidPanic tok;
          (offset, err) = Atoi (DefaultQuery (offset_q q) ''0'')
      in if err \<noteq> None then Inl (400, ErrorPostResponse ''Invalid Offset'')
      else let (limit, err) = Atoi (DefaultQuery (limit_q q) ''20'')
      in if err \<noteq> None then Inl (400, ErrorPostResponse ''Invalid Limit'')
      else (case readPosts_sort (DefaultQuery (sort_by_q q) ''newest'') of
              None \<Rightarrow> Inl (400, ErrorPostResponse ''Invalid Sort By'')
            | Some sortBy \<Rightarrow>
      let searchTitle = DefaultQuery (search_title_q q) [];
          filterQuery = (if searchTitle \<noteq> [] then ''AND title LIKE '' @ [CHR 0x27] @ ''%''
                            @ searchTitle @ ''%'' @ [CHR 0x27] @ '' '' else []);
          (category_id, err) = Atoi (DefaultQuery (category_id_q q) ''0'')
      in if err \<noteq> None then Inl (400, ErrorPostResponse ''Invalid Filter By Category ID'')
      else let filterQuery = (if category_id \<noteq> 0
                 then filterQuery @ ''AND category_id = '' @ int_dec category_id @ '' ''
                 else filterQuery);
               (me, err) = ParseBool (DefaultQuery (me_q q) ''false'')
      in if err \<noteq> None then Inl (400, ErrorPostResponse ''Invalid Filter By Me'')
      else let filterQuery = (if me then filterQuery @ ''AND author_id = '' @ int_dec authorID
                              else filterQuery)
      in Inr (limit, offset, authorID, sortBy, filterQuery)))"

text \<open>The response entry of a row: absent profile columns become the zero value.\<close>

definition post_response :: "int \<Rightarrow> (int \<Rightarrow> string) \<Rightarrow> PostDetail \<Rightarrow> PostResponse" where
  "post_response authorID fmt post =
     (let authorMajor = (if Valid_ns (AuthorMajor_pd post) then String_ns (AuthorMajor_pd post) else []);
          authorInstitute = (if Valid_ns (AuthorInstitution_pd post)
                             then String_ns (AuthorInstitution_pd post) else []);
          authorBatch = (if Valid_ni (AuthorBatch_pd post) then sint (Int32_ni (AuthorBatch_pd post)) else 0);
          authorImage = (if Valid_ns (AuthorAvatar_pd post) then String_ns (AuthorAvatar_pd post) else [])
      in \<lparr>ID_r = ID_pd post, IsLike_r = IsLike_pd post, IsAuthor_r = (authorID = AuthorID_pd post),
          Author_r = \<lparr>ID_a = AuthorID_pd post, Name_a = AuthorName_pd post, Role_a = AuthorRole_pd post,
                      Institute_a = authorInstitute, Major_a = authorMajor, Batch_a = authorBatch,
                      ProfileImage_a = authorImage\<rparr>,
          CategoryID_r = CategoryID_pd post, Title_r = Title_pd post,
          Description_r = Description_pd post, CreatedAt_r = fmt (CreatedAt_pd post),
          CommentCount_r = CommentCount_pd post, LikeCount_r = LikeCount_pd post\<rparr>)"

definition image_response :: "PostDetail \<Rightarrow> PostImageResponse" where
  "image_response post = \<lparr>ID_i = sint (Int32_ni (ImageID_pd post)), URL_i = String_ns (ImagePath_pd post)\<rparr>"

definition zero_PostResponse :: PostResponse where
  "zero_PostResponse =
     \<lparr>ID_r = 0, IsLike_r = False, IsAuthor_r = False,
      Author_r = \<lparr>ID_a = 0, Name_a = [], Role_a = [], Institute_a = [], Major_a = [], Batch_a = 0,
                  ProfileImage_a = []\<rparr>,
      CategoryID_r = 0, Title_r = [], Description_r = [], CreatedAt_r = [],
      CommentCount_r = 0, LikeCount_r = 0\<rparr>"

text \<open>The first loop: \<open>postIDqueue\<close> and the map \<open>postsDetail\<close>.\<close>

fun details_loop :: "int \<Rightarrow> (int \<Rightarrow> string) \<Rightarrow> PostDetail list
     \<Rightarrow> int list \<times> (int \<rightharpoonup> PostResponse) \<Rightarrow> int list \<times> (int \<rightharpoonup> PostResponse)" where
  "details_loop authorID fmt [] st = st"
| "details_loop authorID fmt (post # rest) (postIDqueue, postsDetail) =
     details_loop authorID fmt rest
       (if postsDetail (ID_pd post) = None
        then ((if postIDqueue = [] \<or> last postIDqueue \<noteq> ID_pd post
               then postIDqueue @ [ID_pd post] else postIDqueue),
              postsDetail(ID_pd post \<mapsto> post_response authorID fmt post))
        else (postIDqueue, postsDetail))"

text \<open>The second loop: the map \<open>images\<close>.\<close>

fun images_loop :: "PostDetail list \<Rightarrow> (int \<rightharpoonup> PostImageResponse list) \<Rightarrow> (int \<rightharpoonup> PostImageResponse list)" where
  "images_loop [] images = images"
| "images_loop (post # rest) images =
     images_loop rest
       (let images = (if images (ID_pd post) = None then images(ID_pd post \<mapsto> []) else images)
        in if Valid_ni (ImageID_pd post)
           then images(ID_pd post \<mapsto> (case images (ID_pd post) of None \<Rightarrow> [] | Some l \<Rightarrow> l)
                                        @ [image_response post])
           else images)"

text \<open>The third loop: a missing key reads as the zero value, a nil slice for \<open>images\<close>.\<close>

definition readPosts_assemble :: "int \<Rightarrow> (int \<Rightarrow> string) \<Rightarrow> PostDetail list \<Rightarrow> DetailPostResponse list" where
  "readPosts_assemble authorID fmt rows =
     (let (postIDqueue, postsDetail) = details_loop authorID fmt rows ([], Map.empty);
          images = images_loop rows Map.empty
      in map (\<lambda>postID.
            \<lparr>PostResponse_d = (case postsDetail postID of None \<Rightarrow> zero_PostResponse | Some r \<Rightarrow> r),
             Images_d = images postID\<rparr>) postIDqueue)"

definition readPosts :: "faults \<Rightarrow> sql_engine \<Rightarrow> (int \<Rightarrow> string) \<Rightarrow> db \<Rightarrow> token \<Rightarrow> list_query \<Rightarrow> response list" where
  "readPosts f eng fmt d tok q =
     (case readPosts_query tok q of
        Inl r \<Rightarrow> [r]
      | Inr (limit, offset, authorID, sortBy, filterQuery) \<Rightarrow>
          let (rows, err) = FetchAllPost f eng d limit offset authorID sortBy filterQuery
          in if err \<noteq> None then [(500, ErrorPostResponse ''Internal Server Error'')]
             else if length rows = 0 then [(200, EmptyStrings)]
             else [(200, PostList (readPosts_assemble authorID fmt rows))])"

text \<open>
  The assembly as the specification words it: one entry per post id in the order of first
  appearance, the scalar fields of the first row, one image per row that has one.
\<close>

fun first_seen :: "int list \<Rightarrow> int list" where
  "first_seen [] = []"
| "first_seen (x # xs) = x # first_seen (filter (\<lambda>y. y \<noteq> x) xs)"

fun feed_spec :: "int \<Rightarrow> (int \<Rightarrow> string) \<Rightarrow> PostDetail list \<Rightarrow> DetailPostResponse list" where
  "feed_spec authorID fmt [] = []"
| "feed_spec authorID fmt (r # rs) =
     \<lparr>PostResponse_d = post_response authorID fmt r,
      Images_d = Some (map image_response
                   (filter (\<lambda>x. ID_pd x = ID_pd r \<and> Valid_ni (ImageID_pd x)) (r # rs)))\<rparr>
     # feed_spec authorID fmt (filter (\<lambda>x. ID_pd x \<noteq> ID_pd r) rs)"

text \<open>A row of the join with only the columns the example of the specification names.\<close>

definition example_row :: "int \<Rightarrow> (32 word \<times> string) option \<Rightarrow> PostDetail" where
  "example_row post img =
     \<lparr>ID_pd = post, IsLike_pd = False, AuthorID_pd = 5, AuthorName_pd = ''ann'',
      AuthorRole_pd = ''user'', AuthorAvatar_pd = scan_string None,
      AuthorInstitution_pd = scan_string None, AuthorMajor_pd = scan_string None,
      AuthorBatch_pd = scan_int32 None, CategoryID_pd = 2, Title_pd = ''title'',
      Description_pd = ''text'', CreatedAt_pd = 0, CommentCount_pd = 0, LikeCount_pd = 0,
      ImageID_pd = scan_int32 (map_option fst img), ImagePath_pd = scan_string (map_option snd img)\<rparr>"

text \<open>The images of the rows of one post, in row order.\<close>

definition row_images :: "PostDetail list \<Rightarrow> int \<Rightarrow> PostImageResponse list" where
  "row_images rows i = map image_response (filter (\<lambda>x. ID_pd x = i \<and> Valid_ni (ImageID_pd x)) rows)"

text \<open>What the three loops store for one post id.\<close>

definition feed_entry :: "int \<Rightarrow> (int \<Rightarrow> string) \<Rightarrow> PostDetail list \<Rightarrow> int \<Rightarrow> DetailPostResponse" where
  "feed_entry a f rows i =
     \<lparr>PostResponse_d = (case find (\<lambda>r. ID_pd r = i) rows of None \<Rightarrow> zero_PostResponse
                          | Some r \<Rightarrow> post_response a f r),
      Images_d = (if i \<in> ID_pd ` set rows then Some (row_images rows i) else None)\<rparr>"

text \<open>The rows \<open>[(post=1,img=A),(post=1,img=B),(post=2,img=null)]\<close>.\<close>

definition example_rows :: "PostDetail list" where
  "example_rows = [example_row 1 (Some (10, ''A'')), example_row 1 (Some (11, ''B'')), example_row 2 None]"

subsection \<open>The detail handler \<open>readPost\<close>\<close>


subsection \<open>The writing handlers of posts\<close>

record CreatePostRequest =
  CategoryID_cq :: int
  Title_cq :: string
  Description_cq :: string

record UpdatePostRequest =
  ID_uq :: int
  CategoryID_uq :: int
  Title_uq :: string
  Description_uq :: string

text \<open>What a handler leaves behind: the responses it wrote, in order, whether it ended in a
  panic, and the database.\<close>

record outcome =
  out_resp :: "response list"
  out_panic :: bool
  out_db :: db

definition cannot_read_id :: string where
  "cannot_read_id = ''Your ID cann'' @ [CHR 0x27] @ ''t read''"

definition getUserIdFromToken :: "token \<Rightarrow> (int \<times> go_error option) option" where
  "getUserIdFromToken t =
     (case t of TokenOK i \<Rightarrow> Some (i, None) | TokenErr i e \<Rightarrow> Some (i, Some e) | TokenPanic \<Rightarrow> None)"

text \<open>
  \<open>createPost\<close>: the body is \<open>None\<close> when \<open>ShouldBindJSON\<close> fails; \<open>Validate\<close> is the
  moderation service. The branch for a failed identity writes a response and does not return.
\<close>

definition createPost ::
  "faults \<Rightarrow> int \<Rightarrow> (string \<Rightarrow> bool) \<Rightarrow> token \<Rightarrow> CreatePostRequest option \<Rightarrow> db \<Rightarrow> outcome" where
  "createPost f now Validate tok body d =
     (case body of
        None \<Rightarrow> \<lparr>out_resp = [(400, ErrorPostResponse ''Invalid Request Body'')], out_panic = False, out_db = d\<rparr>
      | Some req \<Rightarrow>
        if \<not> Validate (Title_cq req) \<or> \<not> Validate (Description_cq req)
        then \<lparr>out_resp = [(400, ErrorPostResponse ''Your post contains bad words'')],
              out_panic = False, out_db = d\<rparr>
        else (case getUserIdFromToken tok of
                None \<Rightarrow> \<lparr>out_resp = [], out_panic = True, out_db = d\<rparr>
              | Some (authorID, err) \<Rightarrow>
                let r1 = (if err \<noteq> None
                          then [(400, ErrorPostResponse cannot_read_id)] else []);
                    ((postID, err), d') = InsertPost f now d authorID (CategoryID_cq req)
                                             (Title_cq req) (Description_cq req)
                in if err \<noteq> None
                   then \<lparr>out_resp = r1 @ [(500, ErrorPostResponse ''Internal Server Error'')],
                         out_panic = False, out_db = d'\<rparr>
                   else \<lparr>out_resp = r1 @ [(200, CreatePostResponse postID ''Post Created'')],
                         out_panic = False, out_db = d'\<rparr>))"

text \<open>
  \<open>updatePost\<close>, with the faults of its two store calls. \<open>errors.Is\<close> compares with
  \<open>ErrPostNotFound\<close>; errors are told apart by their message here.
\<close>

definition updatePost ::
  "faults \<Rightarrow> faults \<Rightarrow> (string \<Rightarrow> bool) \<Rightarrow> token \<Rightarrow> UpdatePostRequest option \<Rightarrow> db \<Rightarrow> outcome" where
  "updatePost fl fu Validate tok body d =
     (case body of
        None \<Rightarrow> \<lparr>out_resp = [(400, ErrorPostResponse ''Invalid Request Body'')], out_panic = False, out_db = d\<rparr>
      | Some req \<Rightarrow>
       (case getUserIdFromToken tok of
          None \<Rightarrow> \<lparr>out_resp = [], out_panic = True, out_db = d\<rparr>
        | Some (reqAuthorID, err) \<Rightarrow>
          let r1 = (if err \<noteq> None
                    then [(400, ErrorPostResponse cannot_read_id)] else []);
              (authorID, err) = FetchAuthorIDByPostID fl d (ID_uq req)
          in if err \<noteq> None
             then (if err = Some ErrPostNotFound
                   then \<lparr>out_resp = r1 @ [(404, ErrorPostResponse ''Post Not Found'')],
                         out_panic = False, out_db = d\<rparr>
                   else \<lparr>out_resp = r1 @ [(500, ErrorPostResponse ''Internal Server Error'')],
                         out_panic = False, out_db = d\<rparr>)
             else if authorID \<noteq> reqAuthorID
             then \<lparr>out_resp = r1 @ [(403, ErrorPostResponse ''Forbidden'')], out_panic = False, out_db = d\<rparr>
             else if \<not> Validate (Title_uq req) \<or> \<not> Validate (Description_uq req)
             then \<lparr>out_resp = r1 @ [(400, ErrorPostResponse ''Your post contains bad words'')],
                   out_panic = False, out_db = d\<rparr>
             else let (err, d') = UpdatePost fu d (ID_uq req) (CategoryID_uq req)
                                    (Title_uq req) (Description_uq req)
                  in if err \<noteq> None
                     then \<lparr>out_resp = r1 @ [(500, ErrorPostResponse ''Internal Server Error'')],
                           out_panic = False, out_db = d'\<rparr>
                     else \<lparr>out_resp = r1 @ [(200, SuccessPostResponse ''Post Updated'')],
                           out_panic = False, out_db = d'\<rparr>))"

definition deletePost :: "faults \<Rightarrow> faults \<Rightarrow> token \<Rightarrow> string \<Rightarrow> db \<Rightarrow> outcome" where
  "deletePost fl fd tok idParam d =
     (let (postID, err) = Atoi idParam
      in if err \<noteq> None
         then \<lparr>out_resp = [(400, ErrorPostResponse ''Invalid Post ID'')], out_panic = False, out_db = d\<rparr>
         else
       (case getUserIdFromToken tok of
          None \<Rightarrow> \<lparr>out_resp = [], out_panic = True, out_db = d\<rparr>
        | Some (reqAuthorID, err) \<Rightarrow>
          let r1 = (if err \<noteq> None
                    then [(400, ErrorPostResponse cannot_read_id)] else []);
              (authorID, err) = FetchAuthorIDByPostID fl d postID
          in if err \<noteq> None
             then (if err = Some ErrPostNotFound
                   then \<lparr>out_resp = r1 @ [(404, ErrorPostResponse ''Post Not Found'')],
                         out_panic = False, out_db = d\<rparr>
                   else \<lparr>out_resp = r1 @ [(500, ErrorPostResponse ''Internal Server Error'')],
                         out_panic = False, out_db = d\<rparr>)
             else if authorID \<noteq> reqAuthorID
             then \<lparr>out_resp = r1 @ [(403, ErrorPostResponse ''Forbidden'')], out_panic = False, out_db = d\<rparr>
             else let (err, d') = DeletePostByID fd d postID
                  in if err \<noteq> None
                     then \<lparr>out_resp = r1 @ [(500, ErrorPostResponse ''Internal Server Error'')],
                           out_panic = False, out_db = d'\<rparr>
                     else \<lparr>out_resp = r1 @ [(200, SuccessPostResponse ''Post Deleted'')],
                           out_panic = False, out_db = d'\<rparr>))"

subsection \<open>The image upload \<open>uploadPostImages\<close>\<close>

text \<open>
  One uploaded file with what happens to it: the errors of \<open>file.Open\<close>,
  \<open>os.OpenFile\<close> and \<open>io.Copy\<close>, the clock reading, and the faults of its
  \<open>InsertPostImage\<close>. The stored name is built from the post id, the clock and the
  original name without its spaces (\<open>filepath.Join\<close> would also clean the path).
\<close>

record upload_file =
  Filename :: string
  open_err :: "go_error option"
  create_err :: "go_error option"
  copy_err :: "go_error option"
  unixTime :: int
  insert_faults :: faults

text \<open>
  Each file runs in a goroutine of its own. The goroutines share only the mutex and the
  database, and the database is written between \<open>mu.Lock\<close> and \<open>mu.Unlock\<close>, so a run is
  fixed by the order in which the goroutines reach \<open>mu.Lock\<close>: the order of the list.
  \<open>mu_held\<close> says that a goroutine has returned without \<open>mu.Unlock\<close>; every goroutine
  that reaches \<open>mu.Lock\<close> afterwards waits for ever and is counted in \<open>waiting\<close>.
\<close>

record upload_state =
  up_db :: db
  up_resp :: "response list"
  mu_held :: bool
  waiting :: nat

definition fileLocation :: "int \<Rightarrow> upload_file \<Rightarrow> string" where
  "fileLocation postID file =
     ''media/post/'' @ int_dec postID @ ''-'' @ int_dec (unixTime file) @ ''-''
       @ filter (\<lambda>c. c \<noteq> CHR '' '') (Filename file)"

definition upload_unit :: "int \<Rightarrow> upload_file \<Rightarrow> upload_state \<Rightarrow> upload_state" where
  "upload_unit postID file st =
     (case open_err file of
        Some e \<Rightarrow> st\<lparr>up_resp := up_resp st @ [(500, ErrorPostResponse e)]\<rparr>
      | None \<Rightarrow>
     (case create_err file of
        Some e \<Rightarrow> st\<lparr>up_resp := up_resp st @ [(500, ErrorPostResponse e)]\<rparr>
      | None \<Rightarrow>
     (case copy_err file of
        Some e \<Rightarrow> st\<lparr>up_resp := up_resp st @ [(500, ErrorPostResponse e)]\<rparr>
      | None \<Rightarrow>
        if mu_held st then st\<lparr>waiting := Suc (waiting st)\<rparr>
        else (case InsertPostImage (insert_faults file) (up_db st) postID (fileLocation postID file) of
                (Some e, d') \<Rightarrow>
                  st\<lparr>up_db := d', up_resp := up_resp st @ [(500, ErrorPostResponse e)], mu_held := True\<rparr>
              | (None, d') \<Rightarrow> st\<lparr>up_db := d'\<rparr>))))"

text \<open>
  \<open>uploadPostImages\<close>: \<open>wg.Wait\<close> returns when every goroutine has returned; with a
  goroutine waiting for the mutex it never does, and the handler writes no final response
  (\<open>None\<close>).
\<close>

definition uploadPostImages ::
  "string \<Rightarrow> go_error option \<Rightarrow> go_error option \<Rightarrow> upload_file list \<Rightarrow> db
     \<Rightarrow> upload_state \<times> response option" where
  "uploadPostImages idParam form_err mkdir_err files d =
     (let st0 = \<lparr>up_db = d, up_resp = [], mu_held = False, waiting = 0\<rparr>;
          (postID, err) = Atoi idParam
      in if err \<noteq> None then (st0, Some (400, ErrorPostResponse ''Invalid Post ID''))
      else (case form_err of Some e \<Rightarrow> (st0, Some (400, ErrorPostResponse e))
            | None \<Rightarrow>
           (case mkdir_err of Some e \<Rightarrow> (st0, Some (500, ErrorPostResponse e))
            | None \<Rightarrow>
              let st = fold (upload_unit postID) files st0
              in if waiting st = 0 then (st, Some (200, SuccessPostResponse ''Post Images Uploaded''))
                 else (st, None))))"

subsection \<open>The questionnaire handlers\<close>

text \<open>
  The questionnaire repository is not among the sources: the handlers take its methods as
  parameters and report the writing calls they make.
\<close>

record qrepo =
  ReadAllQuestionnaires_repo :: "int \<Rightarrow> string \<Rightarrow> string \<Rightarrow> Questionnaire list \<times> go_error option"
  ReadAllQuestionnaireByID_repo :: "int \<Rightarrow> int \<Rightarrow> Questionnaire \<times> go_error option"
  UpdateQuestionnaire_repo :: "Questionnaire \<Rightarrow> go_error option"
  DeleteQuestionnaire_repo :: "int \<Rightarrow> go_error option"

datatype qcall = QUpdate Questionnaire | QDelete int

record qoutcome =
  q_resp :: "response list"
  q_panic :: bool
  q_calls :: "qcall list"

definition q_reply :: "response \<Rightarrow> qoutcome" where
  "q_reply r = \<lparr>q_resp = [r], q_panic = False, q_calls = []\<rparr>"

definition q_panicked :: qoutcome where
  "q_panicked = \<lparr>q_resp = [], q_panic = True, q_calls = []\<rparr>"

definition questionnaires_sort :: "string \<Rightarrow> string option" where
  "questionnaires_sort sortBy =
     (if sortBy = ''newest'' then Some ''created_at DESC''
      else if sortBy = ''oldest'' then Some ''created_at''
      else if sortBy = ''most_liked'' then Some ''total_like DESC''
      else if sortBy = ''most_commented'' then Some ''total_comment DESC''
      else None)"

text \<open>
  \<open>ReadAllQuestionnaires\<close> up to the call of the repository: an early response, a panic of
  the token decoder (\<open>None\<close>), or the arguments \<open>(userID, filterQuery, sortBy)\<close>.
  \<open>auth\<close> is the Authorization header.
\<close>

definition ReadAllQuestionnaires_query ::
  "string \<Rightarrow> token \<Rightarrow> list_query \<Rightarrow> (response + (int \<times> string \<times> string)) option" where
  "ReadAllQuestionnaires_query auth tok q =
     (case questionnaires_sort (DefaultQuery (sort_by_q q) ''newest'') of
        None \<Rightarrow> Some (Inl (400, H_error ''Invalid Sort By''))
      | Some sortBy \<Rightarrow>
        let searchTitle = DefaultQuery (search_title_q q) [];
            filterQuery = ''title LIKE '' @ [CHR 0x27] @ ''%'' @ searchTitle @ ''%'' @ [CHR 0x27];
            (categoryId, err) = Atoi (DefaultQuery (category_id_q q) ''0'')
        in if err \<noteq> None then Some (Inl (400, H_error ''Invalid Filter By Category ID''))
        else let filterQuery = (if categoryId \<noteq> 0
                   then filterQuery @ '' AND category_id = '' @ int_dec categoryId else filterQuery);
                 (me, err) = ParseBool (DefaultQuery (me_q q) ''false'')
        in if err \<noteq> None then Some (Inl (400, H_error ''Invalid Filter By Me''))
        else (case (if auth \<noteq> [] then getUserIdFromToken tok else Some (- 1, None)) of
                None \<Rightarrow> None
              | Some (userID, err) \<Rightarrow>
                (case err of Some e \<Rightarrow> Some (Inl (400, H_error e))
                 | None \<Rightarrow>
                   if me then (if userID \<noteq> - 1
                               then Some (Inr (userID, filterQuery @ '' AND author_id = '' @ int_dec userID, sortBy))
                               else Some (Inl (400, H_error ''invalid token'')))
                   else Some (Inr (userID, filterQuery, sortBy)))))"

definition ReadAllQuestionnaires :: "qrepo \<Rightarrow> string \<Rightarrow> token \<Rightarrow> list_query \<Rightarrow> qoutcome" where
  "ReadAllQuestionnaires repo auth tok q =
     (case ReadAllQuestionnaires_query auth tok q of
        None \<Rightarrow> q_panicked
      | Some (Inl r) \<Rightarrow> q_reply r
      | Some (Inr (userID, filterQuery, sortBy)) \<Rightarrow>
          (case ReadAllQuestionnaires_repo repo userID filterQuery sortBy of
             (qs, Some e) \<Rightarrow> q_reply (500, H_error e)
           | (qs, None) \<Rightarrow> q_reply (200, QuestionnaireList qs)))"


text \<open>
  The request body after \<open>ShouldBind\<close>: the body of the 400 response that the failing
  branch writes, or the request.
\<close>

record UpdateQuestionnaireRequest =
  ID_qq :: int
  CategoryID_qq :: int
  Title_qq :: string
  Description_qq :: string
  Link_qq :: string
  Reward_qq :: string

definition UpdateQuestionnaire ::
  "qrepo \<Rightarrow> (string \<Rightarrow> bool) \<Rightarrow> token \<Rightarrow> body + UpdateQuestionnaireRequest \<Rightarrow> qoutcome" where
  "UpdateQuestionnaire repo Validate tok bound =
     (case bound of
        Inl b \<Rightarrow> q_reply (400, b)
      | Inr req \<Rightarrow>
        if \<not> Validate (Title_qq req) \<or> \<not> Validate (Description_qq req)
        then q_reply (400, ErrorPostResponse ''Your post contains bad words'')
        else (case getUserIdFromToken tok of
                None \<Rightarrow> q_panicked
              | Some (userID, Some e) \<Rightarrow> q_reply (400, H_error e)
              | Some (userID, None) \<Rightarrow>
                 (case ReadAllQuestionnaireByID_repo repo userID (ID_qq req) of
                    (questionnaire, Some e) \<Rightarrow> q_reply (500, H_error e)
                  | (questionnaire, None) \<Rightarrow>
                      if questionnaire = zero_Questionnaire
                      then q_reply (400, H_error ''No data with given id'')
                      else if AuthorId_qn questionnaire \<noteq> userID
                      then q_reply (403, H_error ''You are not the owner'')
                      else let new = \<lparr>ID_qn = ID_qq req, AuthorId_qn = 0, CategoryID_qn = CategoryID_qq req,
                                       Title_qn = Title_qq req, Description_qn = Description_qq req,
                                       Link_qn = Link_qq req, Reward_qn = Reward_qq req\<rparr>
                           in (case UpdateQuestionnaire_repo repo new of
                                 Some e \<Rightarrow> \<lparr>q_resp = [(500, H_error e)], q_panic = False, q_calls = [QUpdate new]\<rparr>
                               | None \<Rightarrow> \<lparr>q_resp = [(200, H_message ''Update Questionnaire Successful'')],
                                           q_panic = False, q_calls = [QUpdate new]\<rparr>))))"

definition DeleteQuestionnaire :: "qrepo \<Rightarrow> token \<Rightarrow> string \<Rightarrow> qoutcome" where
  "DeleteQuestionnaire repo tok idParam =
     (let (postID, err) = Atoi idParam
      in if err \<noteq> None then q_reply (400, H_error ''id should be a int'')
      else (case getUserIdFromToken tok of
              None \<Rightarrow> q_panicked
            | Some (userID, Some e) \<Rightarrow> q_reply (400, H_error e)
            | Some (userID, None) \<Rightarrow>
               (case ReadAllQuestionnaireByID_repo repo userID postID of
                  (questionnaire, Some e) \<Rightarrow> q_reply (500, H_error e)
                | (questionnaire, None) \<Rightarrow>
                    if questionnaire = zero_Questionnaire
                    then q_reply (400, H_error ''No data with given id'')
                    else if AuthorId_qn questionnaire \<noteq> userID
                    then q_reply (403, H_error ''You are not the owner'')
                    else (case DeleteQuestionnaire_repo repo postID of
                            Some e \<Rightarrow> \<lparr>q_resp = [(500, H_error e)], q_panic = False, q_calls = [QDelete postID]\<rparr>
                          | None \<Rightarrow> \<lparr>q_resp = [(200, H_message ''Delete Questionnaire Successful'')],
                                      q_panic = False, q_calls = [QDelete postID]\<rparr>))))"

subsection \<open>Data for the examples\<close>





text \<open>A questionnaire repository with one row.\<close>

definition example_questionnaire :: Questionnaire where
  "example_questionnaire = \<lparr>ID_qn = 4, AuthorId_qn = 5, CategoryID_qn = 2, Title_qn = ''survey'',
     Description_qn = ''please answer'', Link_qn = ''https://example.org/q'', Reward_qn = []\<rparr>"

definition example_repo :: qrepo where
  "example_repo =
     \<lparr>ReadAllQuestionnaires_repo = (\<lambda>u flt ord. ([example_questionnaire], None)),
      ReadAllQuestionnaireByID_repo =
        (\<lambda>u i. if i = 4 then (example_questionnaire, None) else (zero_Questionnaire, None)),
      UpdateQuestionnaire_repo = (\<lambda>q. None),
      DeleteQuestionnaire_repo = (\<lambda>i. None)\<rparr>"

text \<open>Requests for the examples: a post id and a questionnaire id.\<close>

definition example_update :: "int \<Rightarrow> UpdatePostRequest" where
  "example_update i = \<lparr>ID_uq = i, CategoryID_uq = 2, Title_uq = ''new title'', Description_uq = ''new text''\<rparr>"

definition example_qupdate :: "int \<Rightarrow> UpdateQuestionnaireRequest" where
  "example_qupdate i = \<lparr>ID_qq = i, CategoryID_qq = 2, Title_qq = ''new title'',
     Description_qq = ''new text'', Link_qq = ''https://example.org/q'', Reward_qq = []\<rparr>"

text \<open>An uploaded file that is stored and recorded without any failure.\<close>

definition good_file :: "string \<Rightarrow> int \<Rightarrow> upload_file" where
  "good_file name t = \<lparr>Filename = name, open_err = None, create_err = None, copy_err = None,
                        unixTime = t, insert_faults = no_faults\<rparr>"

text \<open>A request body for the examples.\<close>

definition example_create :: CreatePostRequest where
  "example_create = \<lparr>CategoryID_cq = 2, Title_cq = ''hello'', Description_cq = ''world''\<rparr>"

section \<open>Properties\<close>

text \<open>
  C10. When \<open>db.Begin\<close> succeeds, \<open>InsertPostImage\<close> returns a nil error whatever the
  INSERT and the commit do: a failure of either is never reported, and the row is absent.
\<close>

theorem InsertPostImage_hides_failure:
  "f_begin f = None \<Longrightarrow>
     fst (InsertPostImage f d postID path) = None \<and>
     (f_exec f \<noteq> None \<or> f_commit f \<noteq> None \<longrightarrow> snd (InsertPostImage f d postID path) = d)"
  by (simp add: InsertPostImage_def Let_def)

theorem InsertPostImage_hides_failure_witness:
  "fst (InsertPostImage (no_faults\<lparr>f_exec := Some ''constraint failed''\<rparr>)
          \<lparr>posts = [], users = [], user_details = [], post_likes = [], comments = [],
           questionnaires = [], post_images = []\<rparr> 7 ''media/post/7-1-a.png'') = None
   \<and> snd (InsertPostImage (no_faults\<lparr>f_exec := Some ''constraint failed''\<rparr>)
          \<lparr>posts = [], users = [], user_details = [], post_likes = [], comments = [],
           questionnaires = [], post_images = []\<rparr> 7 ''media/post/7-1-a.png'')
       = \<lparr>posts = [], users = [], user_details = [], post_likes = [], comments = [],
           questionnaires = [], post_images = []\<rparr>"
  using InsertPostImage_hides_failure
    [of "no_faults\<lparr>f_exec := Some ''constraint failed''\<rparr>"
        "\<lparr>posts = [], users = [], user_details = [], post_likes = [], comments = [],
           questionnaires = [], post_images = []\<rparr>" 7 "''media/post/7-1-a.png''"]
  by (simp add: no_faults_def)


lemma DeletePostByID_ok:
  "f_begin f = None \<Longrightarrow> f_exec f = None \<Longrightarrow> f_exec2 f = None \<Longrightarrow> f_commit f = None \<Longrightarrow>
     DeletePostByID f d postID =
       (None, d\<lparr>posts := filter (\<lambda>p. id_p p \<noteq> postID) (posts d),
                post_images := filter (\<lambda>i. post_id_pi i \<noteq> postID) (post_images d)\<rparr>)"
  by (simp add: DeletePostByID_def Let_def)

lemma DeletePostByID_cases:
  "(fst (DeletePostByID f d postID) = None \<and>
      snd (DeletePostByID f d postID) =
        d\<lparr>posts := filter (\<lambda>p. id_p p \<noteq> postID) (posts d),
          post_images := filter (\<lambda>i. post_id_pi i \<noteq> postID) (post_images d)\<rparr>) \<or>
   (fst (DeletePostByID f d postID) \<noteq> None \<and> snd (DeletePostByID f d postID) = d)"
  by (simp add: DeletePostByID_def Let_def split: option.splits)

lemma images_reference_posts_delete:
  assumes "images_reference_posts d"
  shows "images_reference_posts
           (d\<lparr>posts := filter (\<lambda>p. id_p p \<noteq> postID) (posts d),
              post_images := filter (\<lambda>i. post_id_pi i \<noteq> postID) (post_images d)\<rparr>)"
  using assms by (auto simp: images_reference_posts_def list_all_iff)

text \<open>
  C8. \<open>DeletePostByID\<close> removes the post row and every image row of that post in one
  transaction: when it returns nil no post and no image row with that post id remains; when
  it returns an error the database is as before; with no failing driver call it returns nil;
  and in every case it preserves that each image references an existing post.
\<close>

theorem DeletePostByID_atomic:
  "(fst (DeletePostByID f d postID) = None \<longrightarrow>
      (\<forall>i \<in> set (post_images (snd (DeletePostByID f d postID))). post_id_pi i \<noteq> postID) \<and>
      (\<forall>p \<in> set (posts (snd (DeletePostByID f d postID))). id_p p \<noteq> postID)) \<and>
   (fst (DeletePostByID f d postID) \<noteq> None \<longrightarrow> snd (DeletePostByID f d postID) = d) \<and>
   (fst (DeletePostByID no_faults d postID) = None) \<and>
   (images_reference_posts d \<longrightarrow> images_reference_posts (snd (DeletePostByID f d postID)))"
proof -
  have ok: "fst (DeletePostByID no_faults d postID) = None"
    by (simp add: DeletePostByID_ok no_faults_def)
  from DeletePostByID_cases [of f d postID] show ?thesis
  proof
    assume a: "fst (DeletePostByID f d postID) = None \<and>
      snd (DeletePostByID f d postID) =
        d\<lparr>posts := filter (\<lambda>p. id_p p \<noteq> postID) (posts d),
          post_images := filter (\<lambda>i. post_id_pi i \<noteq> postID) (post_images d)\<rparr>"
    then show ?thesis using ok images_reference_posts_delete [of d postID] by simp
  next
    assume "fst (DeletePostByID f d postID) \<noteq> None \<and> snd (DeletePostByID f d postID) = d"
    then show ?thesis using ok by auto
  qed
qed


theorem DeletePostByID_atomic_witness:
  "fst (DeletePostByID no_faults example_db 1) = None \<and>
   images_reference_posts example_db \<and>
   post_images (snd (DeletePostByID no_faults example_db 1)) = [] \<and>
   map id_p (posts (snd (DeletePostByID no_faults example_db 1))) = [2] \<and>
   images_reference_posts (snd (DeletePostByID no_faults example_db 1)) \<and>
   fst (DeletePostByID (no_faults\<lparr>f_exec2 := Some ''disk I/O error''\<rparr>) example_db 1) \<noteq> None \<and>
   snd (DeletePostByID (no_faults\<lparr>f_exec2 := Some ''disk I/O error''\<rparr>) example_db 1) = example_db"
proof -
  have h1: "fst (DeletePostByID no_faults example_db 1) = None"
    by (simp add: DeletePostByID_ok no_faults_def)
  have h2: "images_reference_posts example_db"
    by (simp add: images_reference_posts_def example_db_def empty_db_def)
  have h3: "fst (DeletePostByID (no_faults\<lparr>f_exec2 := Some ''disk I/O error''\<rparr>) example_db 1) \<noteq> None"
    by (simp add: DeletePostByID_def no_faults_def)
  have e: "snd (DeletePostByID no_faults example_db 1) =
      example_db\<lparr>posts := filter (\<lambda>p. id_p p \<noteq> 1) (posts example_db),
                 post_images := filter (\<lambda>i. post_id_pi i \<noteq> 1) (post_images example_db)\<rparr>"
    by (simp add: DeletePostByID_ok no_faults_def)
  have e1: "post_images (snd (DeletePostByID no_faults example_db 1)) = []"
    unfolding e by (simp add: example_db_def empty_db_def)
  have e2: "map id_p (posts (snd (DeletePostByID no_faults example_db 1))) = [2]"
    unfolding e by (simp add: example_db_def empty_db_def)
  show ?thesis
    using h1 h2 h3 e1 e2 DeletePostByID_atomic [of no_faults example_db 1]
      DeletePostByID_atomic [of "no_faults\<lparr>f_exec2 := Some ''disk I/O error''\<rparr>" example_db 1]
    by simp
qed

lemma set_first_seen: "set (first_seen xs) = set xs"
  by (induction xs rule: first_seen.induct) auto

lemma distinct_first_seen: "distinct (first_seen xs)"
  by (induction xs rule: first_seen.induct) (auto simp: set_first_seen)

lemma details_loop_eq:
  "set q = dom m \<Longrightarrow>
   details_loop a f rows (q, m) =
     (q @ first_seen (filter (\<lambda>i. i \<notin> set q) (map ID_pd rows)),
      (\<lambda>i. case m i of Some r \<Rightarrow> Some r
            | None \<Rightarrow> map_option (post_response a f) (find (\<lambda>r. ID_pd r = i) rows)))"
proof (induction rows arbitrary: q m)
  case Nil
  show ?case by (auto simp: fun_eq_iff split: option.split)
next
  case (Cons post rest)
  show ?case
  proof (cases "m (ID_pd post)")
    case None
    then have notin: "ID_pd post \<notin> set q" using Cons.prems by auto
    then have cond: "q = [] \<or> last q \<noteq> ID_pd post"
      using last_in_set by metis
    have inv: "set (q @ [ID_pd post]) = dom (m(ID_pd post \<mapsto> post_response a f post))"
      using Cons.prems by auto
    have fil: "filter (\<lambda>i. i \<notin> set (q @ [ID_pd post])) (map ID_pd rest)
             = filter (\<lambda>y. y \<noteq> ID_pd post) (filter (\<lambda>i. i \<notin> set q) (map ID_pd rest))"
      by (simp add: conj_commute)
    have mp: "(\<lambda>i. case (m(ID_pd post \<mapsto> post_response a f post)) i of Some r \<Rightarrow> Some r
            | None \<Rightarrow> map_option (post_response a f) (find (\<lambda>r. ID_pd r = i) rest))
        = (\<lambda>i. case m i of Some r \<Rightarrow> Some r
            | None \<Rightarrow> map_option (post_response a f) (find (\<lambda>r. ID_pd r = i) (post # rest)))"
      using None by (auto simp: fun_eq_iff split: option.split)
    have q: "(q @ [ID_pd post]) @ first_seen (filter (\<lambda>i. i \<notin> set (q @ [ID_pd post])) (map ID_pd rest))
           = q @ first_seen (filter (\<lambda>i. i \<notin> set q) (map ID_pd (post # rest)))"
      using notin by (simp add: conj_commute)
    have "details_loop a f (post # rest) (q, m)
        = details_loop a f rest (q @ [ID_pd post], m(ID_pd post \<mapsto> post_response a f post))"
      using None cond by simp
    also have "\<dots> = ((q @ [ID_pd post]) @ first_seen (filter (\<lambda>i. i \<notin> set (q @ [ID_pd post])) (map ID_pd rest)),
           (\<lambda>i. case (m(ID_pd post \<mapsto> post_response a f post)) i of Some r \<Rightarrow> Some r
            | None \<Rightarrow> map_option (post_response a f) (find (\<lambda>r. ID_pd r = i) rest)))"
      by (rule Cons.IH [OF inv])
    finally show ?thesis
      unfolding q mp .
  next
    case (Some r)
    then have isin: "ID_pd post \<in> set q" using Cons.prems by auto
    have mp: "(\<lambda>i. case m i of Some r \<Rightarrow> Some r
            | None \<Rightarrow> map_option (post_response a f) (find (\<lambda>r. ID_pd r = i) rest))
        = (\<lambda>i. case m i of Some r \<Rightarrow> Some r
            | None \<Rightarrow> map_option (post_response a f) (find (\<lambda>r. ID_pd r = i) (post # rest)))"
      using Some by (auto simp: fun_eq_iff split: option.split)
    have q: "q @ first_seen (filter (\<lambda>i. i \<notin> set q) (map ID_pd rest))
           = q @ first_seen (filter (\<lambda>i. i \<notin> set q) (map ID_pd (post # rest)))"
      using isin by simp
    have "details_loop a f (post # rest) (q, m) = details_loop a f rest (q, m)"
      using Some by simp
    also have "\<dots> = (q @ first_seen (filter (\<lambda>i. i \<notin> set q) (map ID_pd rest)),
           (\<lambda>i. case m i of Some r \<Rightarrow> Some r
            | None \<Rightarrow> map_option (post_response a f) (find (\<lambda>r. ID_pd r = i) rest)))"
      by (rule Cons.IH [OF Cons.prems])
    finally show ?thesis
      unfolding q mp .
  qed
qed

lemma images_loop_eq:
  "images_loop rows m =
     (\<lambda>i. if i \<in> ID_pd ` set rows \<or> m i \<noteq> None
           then Some ((case m i of None \<Rightarrow> [] | Some l \<Rightarrow> l) @ row_images rows i)
           else None)"
proof (induction rows arbitrary: m)
  case Nil
  show ?case by (auto simp: fun_eq_iff row_images_def)
next
  case (Cons post rest)
  show ?case
    by (simp add: Cons.IH Let_def) (auto simp: fun_eq_iff row_images_def split: option.split)
qed

lemma readPosts_assemble_entries:
  "readPosts_assemble a f rows = map (feed_entry a f rows) (first_seen (map ID_pd rows))"
proof -
  have d: "details_loop a f rows ([], Map.empty) =
      (first_seen (map ID_pd rows),
       (\<lambda>i. map_option (post_response a f) (find (\<lambda>r. ID_pd r = i) rows)))"
    using details_loop_eq [of "[]" Map.empty a f rows] by simp
  have i: "images_loop rows Map.empty =
      (\<lambda>i. if i \<in> ID_pd ` set rows then Some (row_images rows i) else None)"
    unfolding images_loop_eq by (simp add: fun_eq_iff)
  show ?thesis
    unfolding readPosts_assemble_def d i
    by (simp add: feed_entry_def fun_eq_iff split: option.split)
qed

lemma feed_entry_head:
  "feed_entry a f (r # rs) (ID_pd r) =
     \<lparr>PostResponse_d = post_response a f r,
      Images_d = Some (map image_response
                   (filter (\<lambda>x. ID_pd x = ID_pd r \<and> Valid_ni (ImageID_pd x)) (r # rs)))\<rparr>"
  by (simp add: feed_entry_def row_images_def)

lemma find_filter_other:
  "i \<noteq> k \<Longrightarrow> find (\<lambda>r. ID_pd r = i) (filter (\<lambda>x. ID_pd x \<noteq> k) rs) = find (\<lambda>r. ID_pd r = i) rs"
  by (induction rs) auto

lemma feed_entry_other:
  assumes "i \<noteq> ID_pd r"
  shows "feed_entry a f (r # rs) i = feed_entry a f (filter (\<lambda>x. ID_pd x \<noteq> ID_pd r) rs) i"
proof -
  have 1: "find (\<lambda>x. ID_pd x = i) (r # rs) = find (\<lambda>x. ID_pd x = i) (filter (\<lambda>x. ID_pd x \<noteq> ID_pd r) rs)"
    using assms by (simp add: find_filter_other)
  have 2: "row_images (r # rs) i = row_images (filter (\<lambda>x. ID_pd x \<noteq> ID_pd r) rs) i"
    using assms unfolding row_images_def
    by (auto intro!: arg_cong [where f = "map image_response"] filter_cong)
  have 3: "i \<in> ID_pd ` set (r # rs) \<longleftrightarrow> i \<in> ID_pd ` set (filter (\<lambda>x. ID_pd x \<noteq> ID_pd r) rs)"
    using assms by auto
  show ?thesis unfolding feed_entry_def 1 2 3 ..
qed

lemma entries_feed_spec:
  "map (feed_entry a f rows) (first_seen (map ID_pd rows)) = feed_spec a f rows"
proof (induction a f rows rule: feed_spec.induct)
  case (1 a f)
  show ?case by simp
next
  case (2 a f r rs)
  let ?rest = "filter (\<lambda>x. ID_pd x \<noteq> ID_pd r) rs"
  have ids: "filter (\<lambda>y. y \<noteq> ID_pd r) (map ID_pd rs) = map ID_pd ?rest"
    by (simp add: filter_map comp_def)
  have "map (feed_entry a f (r # rs)) (first_seen (map ID_pd ?rest))
      = map (feed_entry a f ?rest) (first_seen (map ID_pd ?rest))"
  proof (rule map_cong [OF refl])
    fix i assume "i \<in> set (first_seen (map ID_pd ?rest))"
    then have "i \<noteq> ID_pd r" by (auto simp: set_first_seen)
    then show "feed_entry a f (r # rs) i = feed_entry a f ?rest i"
      by (rule feed_entry_other)
  qed
  then have rest: "map (feed_entry a f (r # rs)) (first_seen (map ID_pd ?rest)) = feed_spec a f ?rest"
    using "2.IH" by simp
  have "map (feed_entry a f (r # rs)) (first_seen (map ID_pd (r # rs)))
      = feed_entry a f (r # rs) (ID_pd r) # map (feed_entry a f (r # rs)) (first_seen (map ID_pd ?rest))"
    by (simp add: ids)
  also have "\<dots> = feed_spec a f (r # rs)"
    unfolding rest feed_entry_head by simp
  finally show ?case .
qed

lemma readPosts_assemble_feed_spec: "readPosts_assemble a f rows = feed_spec a f rows"
  by (simp add: readPosts_assemble_entries entries_feed_spec)

lemma map_ID_feed_spec: "map (\<lambda>e. ID_r (PostResponse_d e)) (feed_spec a f rows) = first_seen (map ID_pd rows)"
  by (induction a f rows rule: feed_spec.induct) (simp_all add: filter_map comp_def post_response_def Let_def)

lemma feed_example:
  "map (\<lambda>e. (ID_r (PostResponse_d e), Title_r (PostResponse_d e), Images_d e))
       (feed_spec a f example_rows) =
     [(1, ''title'', Some [\<lparr>ID_i = 10, URL_i = ''A''\<rparr>, \<lparr>ID_i = 11, URL_i = ''B''\<rparr>]),
      (2, ''title'', Some [])]"
  by (simp add: example_rows_def example_row_def post_response_def image_response_def
        scan_int32_def scan_string_def Let_def)

lemma readPosts_assemble_entry:
  assumes "e \<in> set (readPosts_assemble a f rows)"
  shows "\<exists>r. find (\<lambda>x. ID_pd x = ID_r (PostResponse_d e)) rows = Some r \<and>
             PostResponse_d e = post_response a f r \<and>
             Images_d e = Some (map image_response
               (filter (\<lambda>x. ID_pd x = ID_r (PostResponse_d e) \<and> Valid_ni (ImageID_pd x)) rows))"
proof -
  from assms obtain i where i: "i \<in> ID_pd ` set rows" and e: "e = feed_entry a f rows i"
    by (auto simp: readPosts_assemble_entries set_first_seen)
  from i obtain r where r: "find (\<lambda>x. ID_pd x = i) rows = Some r"
    by (cases "find (\<lambda>x. ID_pd x = i) rows") (auto simp: find_None_iff)
  then have "ID_pd r = i" by (auto simp: find_Some_iff)
  then have id: "ID_r (PostResponse_d e) = i"
    using e r by (simp add: feed_entry_def post_response_def Let_def)
  show ?thesis
    unfolding id using e r i by (simp add: feed_entry_def row_images_def)
qed

lemma post_response_fields:
  "ID_r (post_response a f r) = ID_pd r \<and>
   IsLike_r (post_response a f r) = IsLike_pd r \<and>
   IsAuthor_r (post_response a f r) = (a = AuthorID_pd r) \<and>
   ID_a (Author_r (post_response a f r)) = AuthorID_pd r \<and>
   Name_a (Author_r (post_response a f r)) = AuthorName_pd r \<and>
   Role_a (Author_r (post_response a f r)) = AuthorRole_pd r \<and>
   Institute_a (Author_r (post_response a f r))
     = (if Valid_ns (AuthorInstitution_pd r) then String_ns (AuthorInstitution_pd r) else []) \<and>
   Major_a (Author_r (post_response a f r))
     = (if Valid_ns (AuthorMajor_pd r) then String_ns (AuthorMajor_pd r) else []) \<and>
   Batch_a (Author_r (post_response a f r))
     = (if Valid_ni (AuthorBatch_pd r) then sint (Int32_ni (AuthorBatch_pd r)) else 0) \<and>
   ProfileImage_a (Author_r (post_response a f r))
     = (if Valid_ns (AuthorAvatar_pd r) then String_ns (AuthorAvatar_pd r) else []) \<and>
   CategoryID_r (post_response a f r) = CategoryID_pd r \<and>
   Title_r (post_response a f r) = Title_pd r \<and>
   Description_r (post_response a f r) = Description_pd r \<and>
   CreatedAt_r (post_response a f r) = f (CreatedAt_pd r) \<and>
   CommentCount_r (post_response a f r) = CommentCount_pd r \<and>
   LikeCount_r (post_response a f r) = LikeCount_pd r"
  by (simp add: post_response_def Let_def)

lemma image_response_fields:
  "image_response = (\<lambda>x. \<lparr>ID_i = sint (Int32_ni (ImageID_pd x)), URL_i = String_ns (ImagePath_pd x)\<rparr>)"
  by (simp add: fun_eq_iff image_response_def)

lemma readPosts_assemble_entry_fields:
  assumes "e \<in> set (readPosts_assemble a f rows)"
  shows "\<exists>r. find (\<lambda>x. ID_pd x = ID_r (PostResponse_d e)) rows = Some r \<and>
     ID_r (PostResponse_d e) = ID_pd r \<and>
     IsLike_r (PostResponse_d e) = IsLike_pd r \<and>
     IsAuthor_r (PostResponse_d e) = (a = AuthorID_pd r) \<and>
     ID_a (Author_r (PostResponse_d e)) = AuthorID_pd r \<and>
     Name_a (Author_r (PostResponse_d e)) = AuthorName_pd r \<and>
     Role_a (Author_r (PostResponse_d e)) = AuthorRole_pd r \<and>
     Institute_a (Author_r (PostResponse_d e))
       = (if Valid_ns (AuthorInstitution_pd r) then String_ns (AuthorInstitution_pd r) else []) \<and>
     Major_a (Author_r (PostResponse_d e))
       = (if Valid_ns (AuthorMajor_pd r) then String_ns (AuthorMajor_pd r) else []) \<and>
     Batch_a (Author_r (PostResponse_d e))
       = (if Valid_ni (AuthorBatch_pd r) then sint (Int32_ni (AuthorBatch_pd r)) else 0) \<and>
     ProfileImage_a (Author_r (PostResponse_d e))
       = (if Valid_ns (AuthorAvatar_pd r) then String_ns (AuthorAvatar_pd r) else []) \<and>
     CategoryID_r (PostResponse_d e) = CategoryID_pd r \<and>
     Title_r (PostResponse_d e) = Title_pd r \<and>
     Description_r (PostResponse_d e) = Description_pd r \<and>
     CreatedAt_r (PostResponse_d e) = f (CreatedAt_pd r) \<and>
     CommentCount_r (PostResponse_d e) = CommentCount_pd r \<and>
     LikeCount_r (PostResponse_d e) = LikeCount_pd r \<and>
     Images_d e = Some (map (\<lambda>x. \<lparr>ID_i = sint (Int32_ni (ImageID_pd x)), URL_i = String_ns (ImagePath_pd x)\<rparr>)
       (filter (\<lambda>x. ID_pd x = ID_r (PostResponse_d e) \<and> Valid_ni (ImageID_pd x)) rows))"
proof -
  from readPosts_assemble_entry [OF assms] obtain r where
    r: "find (\<lambda>x. ID_pd x = ID_r (PostResponse_d e)) rows = Some r"
    and p: "PostResponse_d e = post_response a f r"
    and i: "Images_d e = Some (map image_response
               (filter (\<lambda>x. ID_pd x = ID_r (PostResponse_d e) \<and> Valid_ni (ImageID_pd x)) rows))"
    by blast
  show ?thesis
    using r i post_response_fields [of a f r] unfolding p image_response_fields by blast
qed

text \<open>
  C1. The feed assembler of \<open>readPosts\<close> returns one entry per distinct post id, in the
  order of the first appearance of each id. Every scalar field of an entry is that of the
  first row with its id: id, like flag, author id, name and role, category, title,
  description, the formatted creation time and both counts; the author flag compares the
  viewer with the row's author; an absent institute, major, batch or avatar is the empty
  string or zero. The image list of an entry holds one image, with the id and the path of
  the row, per row of that id whose image id is present, in row order, and is an empty
  list, never a nil one, when there is none. On the rows of the example the answer is
  post 1 with the images A and B, then post 2 with the empty list.
\<close>

theorem readPosts_assemble_groups:
  "readPosts_assemble a f rows = feed_spec a f rows \<and>
   map (\<lambda>e. ID_r (PostResponse_d e)) (readPosts_assemble a f rows) = first_seen (map ID_pd rows) \<and>
   distinct (map (\<lambda>e. ID_r (PostResponse_d e)) (readPosts_assemble a f rows)) \<and>
   set (map (\<lambda>e. ID_r (PostResponse_d e)) (readPosts_assemble a f rows)) = set (map ID_pd rows) \<and>
   (\<forall>e \<in> set (readPosts_assemble a f rows).
      \<exists>r. find (\<lambda>x. ID_pd x = ID_r (PostResponse_d e)) rows = Some r \<and>
          ID_r (PostResponse_d e) = ID_pd r \<and>
          IsLike_r (PostResponse_d e) = IsLike_pd r \<and>
          IsAuthor_r (PostResponse_d e) = (a = AuthorID_pd r) \<and>
          ID_a (Author_r (PostResponse_d e)) = AuthorID_pd r \<and>
          Name_a (Author_r (PostResponse_d e)) = AuthorName_pd r \<and>
          Role_a (Author_r (PostResponse_d e)) = AuthorRole_pd r \<and>
          Institute_a (Author_r (PostResponse_d e))
            = (if Valid_ns (AuthorInstitution_pd r) then String_ns (AuthorInstitution_pd r) else []) \<and>
          Major_a (Author_r (PostResponse_d e))
            = (if Valid_ns (AuthorMajor_pd r) then String_ns (AuthorMajor_pd r) else []) \<and>
          Batch_a (Author_r (PostResponse_d e))
            = (if Valid_ni (AuthorBatch_pd r) then sint (Int32_ni (AuthorBatch_pd r)) else 0) \<and>
          ProfileImage_a (Author_r (PostResponse_d e))
            = (if Valid_ns (AuthorAvatar_pd r) then String_ns (AuthorAvatar_pd r) else []) \<and>
          CategoryID_r (PostResponse_d e) = CategoryID_pd r \<and>
          Title_r (PostResponse_d e) = Title_pd r \<and>
          Description_r (PostResponse_d e) = Description_pd r \<and>
          CreatedAt_r (PostResponse_d e) = f (CreatedAt_pd r) \<and>
          CommentCount_r (PostResponse_d e) = CommentCount_pd r \<and>
          LikeCount_r (PostResponse_d e) = LikeCount_pd r \<and>
          Images_d e = Some (map (\<lambda>x. \<lparr>ID_i = sint (Int32_ni (ImageID_pd x)),
                                         URL_i = String_ns (ImagePath_pd x)\<rparr>)
            (filter (\<lambda>x. ID_pd x = ID_r (PostResponse_d e) \<and> Valid_ni (ImageID_pd x)) rows))) \<and>
   map (\<lambda>e. (ID_r (PostResponse_d e), Title_r (PostResponse_d e), Images_d e))
       (readPosts_assemble a f example_rows) =
     [(1, ''title'', Some [\<lparr>ID_i = 10, URL_i = ''A''\<rparr>, \<lparr>ID_i = 11, URL_i = ''B''\<rparr>]),
      (2, ''title'', Some [])]"
proof -
  have ids: "map (\<lambda>e. ID_r (PostResponse_d e)) (readPosts_assemble a f rows) = first_seen (map ID_pd rows)"
    by (simp add: readPosts_assemble_feed_spec map_ID_feed_spec)
  have ex: "map (\<lambda>e. (ID_r (PostResponse_d e), Title_r (PostResponse_d e), Images_d e))
       (readPosts_assemble a f example_rows) =
     [(1, ''title'', Some [\<lparr>ID_i = 10, URL_i = ''A''\<rparr>, \<lparr>ID_i = 11, URL_i = ''B''\<rparr>]),
      (2, ''title'', Some [])]"
    unfolding readPosts_assemble_feed_spec by (rule feed_example)
  have c: "readPosts_assemble a f rows = feed_spec a f rows"
    by (rule readPosts_assemble_feed_spec)
  have d: "distinct (map (\<lambda>e. ID_r (PostResponse_d e)) (readPosts_assemble a f rows))"
    unfolding ids by (rule distinct_first_seen)
  have s: "set (map (\<lambda>e. ID_r (PostResponse_d e)) (readPosts_assemble a f rows)) = set (map ID_pd rows)"
    unfolding ids by (rule set_first_seen)
  have en: "\<forall>e \<in> set (readPosts_assemble a f rows).
      \<exists>r. find (\<lambda>x. ID_pd x = ID_r (PostResponse_d e)) rows = Some r \<and>
          ID_r (PostResponse_d e) = ID_pd r \<and>
          IsLike_r (PostResponse_d e) = IsLike_pd r \<and>
          IsAuthor_r (PostResponse_d e) = (a = AuthorID_pd r) \<and>
          ID_a (Author_r (PostResponse_d e)) = AuthorID_pd r \<and>
          Name_a (Author_r (PostResponse_d e)) = AuthorName_pd r \<and>
          Role_a (Author_r (PostResponse_d e)) = AuthorRole_pd r \<and>
          Institute_a (Author_r (PostResponse_d e))
            = (if Valid_ns (AuthorInstitution_pd r) then String_ns (AuthorInstitution_pd r) else []) \<and>
          Major_a (Author_r (PostResponse_d e))
            = (if Valid_ns (AuthorMajor_pd r) then String_ns (AuthorMajor_pd r) else []) \<and>
          Batch_a (Author_r (PostResponse_d e))
            = (if Valid_ni (AuthorBatch_pd r) then sint (Int32_ni (AuthorBatch_pd r)) else 0) \<and>
          ProfileImage_a (Author_r (PostResponse_d e))
            = (if Valid_ns (AuthorAvatar_pd r) then String_ns (AuthorAvatar_pd r) else []) \<and>
          CategoryID_r (PostResponse_d e) = CategoryID_pd r \<and>
          Title_r (PostResponse_d e) = Title_pd r \<and>
          Description_r (PostResponse_d e) = Description_pd r \<and>
          CreatedAt_r (PostResponse_d e) = f (CreatedAt_pd r) \<and>
          CommentCount_r (PostResponse_d e) = CommentCount_pd r \<and>
          LikeCount_r (PostResponse_d e) = LikeCount_pd r \<and>
          Images_d e = Some (map (\<lambda>x. \<lparr>ID_i = sint (Int32_ni (ImageID_pd x)),
                                         URL_i = String_ns (ImagePath_pd x)\<rparr>)
            (filter (\<lambda>x. ID_pd x = ID_r (PostResponse_d e) \<and> Valid_ni (ImageID_pd x)) rows))"
    by (rule ballI) (rule readPosts_assemble_entry_fields)
  show ?thesis
    by (rule conjI [OF c conjI [OF ids conjI [OF d conjI [OF s conjI [OF en ex]]]]])
qed

theorem readPosts_assemble_groups_witness:
  "last (readPosts_assemble 5 (\<lambda>t. ''1970-01-01 00:00:00'') example_rows)
     \<in> set (readPosts_assemble 5 (\<lambda>t. ''1970-01-01 00:00:00'') example_rows) \<and>
   ID_r (PostResponse_d (last (readPosts_assemble 5 (\<lambda>t. ''1970-01-01 00:00:00'') example_rows))) = 2 \<and>
   Title_r (PostResponse_d (last (readPosts_assemble 5 (\<lambda>t. ''1970-01-01 00:00:00'') example_rows)))
     = ''title'' \<and>
   Images_d (last (readPosts_assemble 5 (\<lambda>t. ''1970-01-01 00:00:00'') example_rows)) = Some []"
proof -
  let ?out = "readPosts_assemble 5 (\<lambda>t. ''1970-01-01 00:00:00'') example_rows"
  have m: "map (\<lambda>e. (ID_r (PostResponse_d e), Title_r (PostResponse_d e), Images_d e)) ?out =
     [(1, ''title'', Some [\<lparr>ID_i = 10, URL_i = ''A''\<rparr>, \<lparr>ID_i = 11, URL_i = ''B''\<rparr>]),
      (2, ''title'', Some [])]"
    using readPosts_assemble_groups [of 5 "\<lambda>t. ''1970-01-01 00:00:00''" example_rows] by blast
  then have ne: "?out \<noteq> []" by auto
  then have h: "last ?out \<in> set ?out" by simp
  have "(\<lambda>e. (ID_r (PostResponse_d e), Title_r (PostResponse_d e), Images_d e)) (last ?out)
      = (2, ''title'', Some [])"
    using last_map [OF ne, of "\<lambda>e. (ID_r (PostResponse_d e), Title_r (PostResponse_d e), Images_d e)"]
    unfolding m by simp
  then show ?thesis using h by simp
qed











lemma Atoi_0: "Atoi ''0'' = (0, None)"
  by code_simp

lemma Atoi_20: "Atoi ''20'' = (20, None)"
  by code_simp





















lemma FetchAuthorIDByPostID_absent:
  "f_begin f = None \<Longrightarrow> f_exec f = None \<Longrightarrow> postID \<notin> id_p ` set (posts d) \<Longrightarrow>
     FetchAuthorIDByPostID f d postID = (0, Some ErrPostNotFound)"
proof -
  assume f: "f_begin f = None" "f_exec f = None" and "postID \<notin> id_p ` set (posts d)"
  then have "filter (\<lambda>p. id_p p = postID) (posts d) = []"
    by (auto simp: filter_empty_conv)
  then show ?thesis using f by (simp add: FetchAuthorIDByPostID_def)
qed

lemma FetchAuthorIDByPostID_present:
  assumes "f_begin f = None" "f_exec f = None" "f_commit f = None"
    and "postID \<in> id_p ` set (posts d)"
  shows "\<exists>p \<in> set (posts d). id_p p = postID \<and>
           FetchAuthorIDByPostID f d postID = (author_id_p p, None)"
proof -
  from assms(4) have "filter (\<lambda>p. id_p p = postID) (posts d) \<noteq> []"
    by (auto simp: filter_empty_conv)
  then obtain p ps where ps: "filter (\<lambda>p. id_p p = postID) (posts d) = p # ps"
    by (cases "filter (\<lambda>p. id_p p = postID) (posts d)") auto
  then have "p \<in> set (filter (\<lambda>p. id_p p = postID) (posts d))" by simp
  then have "p \<in> set (posts d)" "id_p p = postID" by auto
  moreover have "FetchAuthorIDByPostID f d postID = (author_id_p p, None)"
    using assms(1-3) ps by (simp add: FetchAuthorIDByPostID_def)
  ultimately show ?thesis by blast
qed

lemma updatePost_not_found:
  assumes "FetchAuthorIDByPostID fl d (ID_uq req) = (0, Some ErrPostNotFound)"
    and "getUserIdFromToken tok = Some (u, e)"
  shows "updatePost fl fu Validate tok (Some req) d =
           \<lparr>out_resp = (if e \<noteq> None then [(400, ErrorPostResponse cannot_read_id)] else [])
                         @ [(404, ErrorPostResponse ''Post Not Found'')],
            out_panic = False, out_db = d\<rparr>"
  using assms by (simp add: updatePost_def Let_def)

lemma updatePost_forbidden:
  assumes "FetchAuthorIDByPostID fl d (ID_uq req) = (a, None)" and "a \<noteq> u"
    and "getUserIdFromToken tok = Some (u, e)"
  shows "updatePost fl fu Validate tok (Some req) d =
           \<lparr>out_resp = (if e \<noteq> None then [(400, ErrorPostResponse cannot_read_id)] else [])
                         @ [(403, ErrorPostResponse ''Forbidden'')],
            out_panic = False, out_db = d\<rparr>"
  using assms by (simp add: updatePost_def Let_def)

lemma deletePost_not_found:
  assumes "Atoi idParam = (postID, None)"
    and "FetchAuthorIDByPostID fl d postID = (0, Some ErrPostNotFound)"
    and "getUserIdFromToken tok = Some (u, e)"
  shows "deletePost fl fd tok idParam d =
           \<lparr>out_resp = (if e \<noteq> None then [(400, ErrorPostResponse cannot_read_id)] else [])
                         @ [(404, ErrorPostResponse ''Post Not Found'')],
            out_panic = False, out_db = d\<rparr>"
  using assms by (simp add: deletePost_def Let_def)

lemma deletePost_forbidden:
  assumes "Atoi idParam = (postID, None)"
    and "FetchAuthorIDByPostID fl d postID = (a, None)" and "a \<noteq> u"
    and "getUserIdFromToken tok = Some (u, e)"
  shows "deletePost fl fd tok idParam d =
           \<lparr>out_resp = (if e \<noteq> None then [(400, ErrorPostResponse cannot_read_id)] else [])
                         @ [(403, ErrorPostResponse ''Forbidden'')],
            out_panic = False, out_db = d\<rparr>"
  using assms by (simp add: deletePost_def Let_def)

lemma UpdateQuestionnaire_checks:
  assumes "Validate (Title_qq req)" "Validate (Description_qq req)"
  shows "(ReadAllQuestionnaireByID_repo repo u (ID_qq req) = (zero_Questionnaire, None) \<longrightarrow>
            UpdateQuestionnaire repo Validate (TokenOK u) (Inr req)
              = q_reply (400, H_error ''No data with given id'')) \<and>
         (ReadAllQuestionnaireByID_repo repo u (ID_qq req) = (qn, None) \<and> qn \<noteq> zero_Questionnaire \<and>
          AuthorId_qn qn \<noteq> u \<longrightarrow>
            UpdateQuestionnaire repo Validate (TokenOK u) (Inr req)
              = q_reply (403, H_error ''You are not the owner''))"
  using assms by (simp add: UpdateQuestionnaire_def getUserIdFromToken_def)

lemma DeleteQuestionnaire_checks:
  assumes "Atoi idParam = (postID, None)"
  shows "(ReadAllQuestionnaireByID_repo repo u postID = (zero_Questionnaire, None) \<longrightarrow>
            DeleteQuestionnaire repo (TokenOK u) idParam
              = q_reply (400, H_error ''No data with given id'')) \<and>
         (ReadAllQuestionnaireByID_repo repo u postID = (qn, None) \<and> qn \<noteq> zero_Questionnaire \<and>
          AuthorId_qn qn \<noteq> u \<longrightarrow>
            DeleteQuestionnaire repo (TokenOK u) idParam
              = q_reply (403, H_error ''You are not the owner''))"
  using assms by (simp add: DeleteQuestionnaire_def getUserIdFromToken_def)

text \<open>
  C6. With a working store, an update or a delete of a post whose id is not in the table
  ends with 404 \<open>Post Not Found\<close> whoever the caller is, and changes nothing; the lookup
  comes before the comparison of the authors, so no 403 is written. The same request by a
  resolved caller who is not the author of an existing post ends with 403 \<open>Forbidden\<close> and
  changes nothing. The questionnaire handlers do the same with the row the repository
  returns: the zero row gives \<open>No data with given id\<close>, another author gives 403, and the
  repository is not asked to write. (A caller whose identity is not resolved gets the
  response of that failure first and then the 404.)
\<close>

theorem not_found_before_forbidden:
  assumes "f_begin fl = None" and "f_exec fl = None" and "f_commit fl = None"
    and "Atoi idParam = (ID_uq req, None)"
    and "Validate (Title_qq qreq)" and "Validate (Description_qq qreq)"
    and "Atoi qidParam = (ID_qq qreq, None)"
  shows
  "(ID_uq req \<notin> id_p ` set (posts d) \<longrightarrow>
      updatePost fl fu Validate (TokenOK u) (Some req) d =
        \<lparr>out_resp = [(404, ErrorPostResponse ''Post Not Found'')], out_panic = False, out_db = d\<rparr> \<and>
      deletePost fl fd (TokenOK u) idParam d =
        \<lparr>out_resp = [(404, ErrorPostResponse ''Post Not Found'')], out_panic = False, out_db = d\<rparr> \<and>
      updatePost fl fu Validate (TokenErr u e) (Some req) d =
        \<lparr>out_resp = [(400, ErrorPostResponse cannot_read_id), (404, ErrorPostResponse ''Post Not Found'')],
         out_panic = False, out_db = d\<rparr> \<and>
      deletePost fl fd (TokenErr u e) idParam d =
        \<lparr>out_resp = [(400, ErrorPostResponse cannot_read_id), (404, ErrorPostResponse ''Post Not Found'')],
         out_panic = False, out_db = d\<rparr>) \<and>
   (ID_uq req \<in> id_p ` set (posts d) \<and>
    (\<forall>p \<in> set (posts d). id_p p = ID_uq req \<longrightarrow> author_id_p p \<noteq> u) \<longrightarrow>
      updatePost fl fu Validate (TokenOK u) (Some req) d =
        \<lparr>out_resp = [(403, ErrorPostResponse ''Forbidden'')], out_panic = False, out_db = d\<rparr> \<and>
      deletePost fl fd (TokenOK u) idParam d =
        \<lparr>out_resp = [(403, ErrorPostResponse ''Forbidden'')], out_panic = False, out_db = d\<rparr>) \<and>
   (ReadAllQuestionnaireByID_repo repo u (ID_qq qreq) = (zero_Questionnaire, None) \<longrightarrow>
      UpdateQuestionnaire repo Validate (TokenOK u) (Inr qreq)
        = \<lparr>q_resp = [(400, H_error ''No data with given id'')], q_panic = False, q_calls = []\<rparr> \<and>
      DeleteQuestionnaire repo (TokenOK u) qidParam
        = \<lparr>q_resp = [(400, H_error ''No data with given id'')], q_panic = False, q_calls = []\<rparr>) \<and>
   (ReadAllQuestionnaireByID_repo repo u (ID_qq qreq) = (qn, None) \<and> qn \<noteq> zero_Questionnaire \<and>
    AuthorId_qn qn \<noteq> u \<longrightarrow>
      UpdateQuestionnaire repo Validate (TokenOK u) (Inr qreq)
        = \<lparr>q_resp = [(403, H_error ''You are not the owner'')], q_panic = False, q_calls = []\<rparr> \<and>
      DeleteQuestionnaire repo (TokenOK u) qidParam
        = \<lparr>q_resp = [(403, H_error ''You are not the owner'')], q_panic = False, q_calls = []\<rparr>)"
proof -
  have ok: "getUserIdFromToken (TokenOK u) = Some (u, None)"
    and er: "getUserIdFromToken (TokenErr u e) = Some (u, Some e)"
    by (simp_all add: getUserIdFromToken_def)
  have nf: "ID_uq req \<notin> id_p ` set (posts d) \<longrightarrow>
      updatePost fl fu Validate (TokenOK u) (Some req) d =
        \<lparr>out_resp = [(404, ErrorPostResponse ''Post Not Found'')], out_panic = False, out_db = d\<rparr> \<and>
      deletePost fl fd (TokenOK u) idParam d =
        \<lparr>out_resp = [(404, ErrorPostResponse ''Post Not Found'')], out_panic = False, out_db = d\<rparr> \<and>
      updatePost fl fu Validate (TokenErr u e) (Some req) d =
        \<lparr>out_resp = [(400, ErrorPostResponse cannot_read_id), (404, ErrorPostResponse ''Post Not Found'')],
         out_panic = False, out_db = d\<rparr> \<and>
      deletePost fl fd (TokenErr u e) idParam d =
        \<lparr>out_resp = [(400, ErrorPostResponse cannot_read_id), (404, ErrorPostResponse ''Post Not Found'')],
         out_panic = False, out_db = d\<rparr>"
  proof
    assume "ID_uq req \<notin> id_p ` set (posts d)"
    then have l: "FetchAuthorIDByPostID fl d (ID_uq req) = (0, Some ErrPostNotFound)"
      using assms(1,2) by (rule FetchAuthorIDByPostID_absent [rotated 2])
    show "updatePost fl fu Validate (TokenOK u) (Some req) d =
        \<lparr>out_resp = [(404, ErrorPostResponse ''Post Not Found'')], out_panic = False, out_db = d\<rparr> \<and>
      deletePost fl fd (TokenOK u) idParam d =
        \<lparr>out_resp = [(404, ErrorPostResponse ''Post Not Found'')], out_panic = False, out_db = d\<rparr> \<and>
      updatePost fl fu Validate (TokenErr u e) (Some req) d =
        \<lparr>out_resp = [(400, ErrorPostResponse cannot_read_id), (404, ErrorPostResponse ''Post Not Found'')],
         out_panic = False, out_db = d\<rparr> \<and>
      deletePost fl fd (TokenErr u e) idParam d =
        \<lparr>out_resp = [(400, ErrorPostResponse cannot_read_id), (404, ErrorPostResponse ''Post Not Found'')],
         out_panic = False, out_db = d\<rparr>"
      using updatePost_not_found [OF l ok, of fu Validate] updatePost_not_found [OF l er, of fu Validate]
        deletePost_not_found [OF assms(4) l ok, of fd] deletePost_not_found [OF assms(4) l er, of fd]
      by simp
  qed
  have fb: "ID_uq req \<in> id_p ` set (posts d) \<and>
    (\<forall>p \<in> set (posts d). id_p p = ID_uq req \<longrightarrow> author_id_p p \<noteq> u) \<longrightarrow>
      updatePost fl fu Validate (TokenOK u) (Some req) d =
        \<lparr>out_resp = [(403, ErrorPostResponse ''Forbidden'')], out_panic = False, out_db = d\<rparr> \<and>
      deletePost fl fd (TokenOK u) idParam d =
        \<lparr>out_resp = [(403, ErrorPostResponse ''Forbidden'')], out_panic = False, out_db = d\<rparr>"
  proof
    assume h: "ID_uq req \<in> id_p ` set (posts d) \<and>
      (\<forall>p \<in> set (posts d). id_p p = ID_uq req \<longrightarrow> author_id_p p \<noteq> u)"
    then obtain p where p: "p \<in> set (posts d)" "id_p p = ID_uq req"
      and l: "FetchAuthorIDByPostID fl d (ID_uq req) = (author_id_p p, None)"
      using FetchAuthorIDByPostID_present [OF assms(1-3), of "ID_uq req" d] by blast
    from h p have ne: "author_id_p p \<noteq> u" by blast
    show "updatePost fl fu Validate (TokenOK u) (Some req) d =
        \<lparr>out_resp = [(403, ErrorPostResponse ''Forbidden'')], out_panic = False, out_db = d\<rparr> \<and>
      deletePost fl fd (TokenOK u) idParam d =
        \<lparr>out_resp = [(403, ErrorPostResponse ''Forbidden'')], out_panic = False, out_db = d\<rparr>"
      using updatePost_forbidden [OF l ne ok, of fu Validate]
        deletePost_forbidden [OF assms(4) l ne ok, of fd]
      by simp
  qed
  show ?thesis
    using nf fb UpdateQuestionnaire_checks [OF assms(5,6), of repo u qn]
      DeleteQuestionnaire_checks [OF assms(7), of repo u qn]
    unfolding q_reply_def by blast
qed

lemma Atoi_small:
  "Atoi ''1'' = (1, None)" "Atoi ''4'' = (4, None)" "Atoi ''7'' = (7, None)" "Atoi ''9'' = (9, None)"
  by code_simp+

theorem not_found_before_forbidden_witness:
  "7 \<notin> id_p ` set (posts example_db) \<and>
   updatePost no_faults no_faults (\<lambda>t. True) (TokenOK 6) (Some (example_update 7)) example_db =
     \<lparr>out_resp = [(404, ErrorPostResponse ''Post Not Found'')], out_panic = False, out_db = example_db\<rparr> \<and>
   deletePost no_faults no_faults (TokenOK 6) ''7'' example_db =
     \<lparr>out_resp = [(404, ErrorPostResponse ''Post Not Found'')], out_panic = False, out_db = example_db\<rparr> \<and>
   1 \<in> id_p ` set (posts example_db) \<and>
   map author_id_p (filter (\<lambda>p. id_p p = 1) (posts example_db)) = [5] \<and>
   updatePost no_faults no_faults (\<lambda>t. True) (TokenOK 6) (Some (example_update 1)) example_db =
     \<lparr>out_resp = [(403, ErrorPostResponse ''Forbidden'')], out_panic = False, out_db = example_db\<rparr> \<and>
   deletePost no_faults no_faults (TokenOK 6) ''1'' example_db =
     \<lparr>out_resp = [(403, ErrorPostResponse ''Forbidden'')], out_panic = False, out_db = example_db\<rparr> \<and>
   UpdateQuestionnaire example_repo (\<lambda>t. True) (TokenOK 6) (Inr (example_qupdate 9))
     = \<lparr>q_resp = [(400, H_error ''No data with given id'')], q_panic = False, q_calls = []\<rparr> \<and>
   DeleteQuestionnaire example_repo (TokenOK 6) ''9''
     = \<lparr>q_resp = [(400, H_error ''No data with given id'')], q_panic = False, q_calls = []\<rparr> \<and>
   UpdateQuestionnaire example_repo (\<lambda>t. True) (TokenOK 6) (Inr (example_qupdate 4))
     = \<lparr>q_resp = [(403, H_error ''You are not the owner'')], q_panic = False, q_calls = []\<rparr> \<and>
   DeleteQuestionnaire example_repo (TokenOK 6) ''4''
     = \<lparr>q_resp = [(403, H_error ''You are not the owner'')], q_panic = False, q_calls = []\<rparr>"
proof -
  have nf: "f_begin no_faults = None" "f_exec no_faults = None" "f_commit no_faults = None"
    by (simp_all add: no_faults_def)
  have a7: "Atoi ''7'' = (ID_uq (example_update 7), None)"
    and a1: "Atoi ''1'' = (ID_uq (example_update 1), None)"
    and a9: "Atoi ''9'' = (ID_qq (example_qupdate 9), None)"
    and a4: "Atoi ''4'' = (ID_qq (example_qupdate 4), None)"
    by (simp_all add: Atoi_small example_update_def example_qupdate_def)
  have v: "(\<lambda>t. True) (Title_qq (example_qupdate 9))" "(\<lambda>t. True) (Description_qq (example_qupdate 9))"
    "(\<lambda>t. True) (Title_qq (example_qupdate 4))" "(\<lambda>t. True) (Description_qq (example_qupdate 4))"
    by simp_all
  have h7: "ID_uq (example_update 7) \<notin> id_p ` set (posts example_db)"
    by (simp add: example_update_def example_db_def empty_db_def)
  have h1: "ID_uq (example_update 1) \<in> id_p ` set (posts example_db) \<and>
      (\<forall>p \<in> set (posts example_db). id_p p = ID_uq (example_update 1) \<longrightarrow> author_id_p p \<noteq> 6)"
    by (simp add: example_update_def example_db_def empty_db_def)
  have q9: "ReadAllQuestionnaireByID_repo example_repo 6 (ID_qq (example_qupdate 9)) = (zero_Questionnaire, None)"
    by (simp add: example_repo_def example_qupdate_def)
  have q4: "ReadAllQuestionnaireByID_repo example_repo 6 (ID_qq (example_qupdate 4)) = (example_questionnaire, None)
      \<and> example_questionnaire \<noteq> zero_Questionnaire \<and> AuthorId_qn example_questionnaire \<noteq> 6"
    by (simp add: example_repo_def example_qupdate_def example_questionnaire_def zero_Questionnaire_def)
  have au: "map author_id_p (filter (\<lambda>p. id_p p = 1) (posts example_db)) = [5]"
    by (simp add: example_db_def empty_db_def)
  show ?thesis
    using h7 h1 q9 q4 au
      not_found_before_forbidden [OF nf a7 v(1,2) a9, of example_db no_faults 6 no_faults
        "''invalid token''" example_repo example_questionnaire]
      not_found_before_forbidden [OF nf a1 v(3,4) a4, of example_db no_faults 6 no_faults
        "''invalid token''" example_repo example_questionnaire]
    by (simp add: example_update_def)
qed

lemma createPost_unresolved:
  assumes "Validate (Title_cq req)" and "Validate (Description_cq req)"
  shows "createPost no_faults now Validate (TokenErr i e) (Some req) d =
     \<lparr>out_resp = [(400, ErrorPostResponse cannot_read_id),
                  (200, CreatePostResponse (next_post_id (posts d)) ''Post Created'')],
      out_panic = False,
      out_db = d\<lparr>posts := posts d @
                 [\<lparr>id_p = next_post_id (posts d), author_id_p = i, category_id_p = CategoryID_cq req,
                   title_p = Title_cq req, desc_p = Description_cq req, created_at_p = now\<rparr>]\<rparr>\<rparr>"
  using assms
  by (simp add: createPost_def getUserIdFromToken_def InsertPost_def no_faults_def Let_def)

lemma updatePost_unresolved:
  assumes "Validate (Title_uq req)" and "Validate (Description_uq req)"
    and "FetchAuthorIDByPostID no_faults d (ID_uq req) = (a, None)"
  shows "updatePost no_faults no_faults Validate (TokenErr i e) (Some req) d =
     (if a \<noteq> i
      then \<lparr>out_resp = [(400, ErrorPostResponse cannot_read_id), (403, ErrorPostResponse ''Forbidden'')],
            out_panic = False, out_db = d\<rparr>
      else \<lparr>out_resp = [(400, ErrorPostResponse cannot_read_id), (200, SuccessPostResponse ''Post Updated'')],
            out_panic = False,
            out_db = snd (UpdatePost no_faults d (ID_uq req) (CategoryID_uq req) (Title_uq req)
                            (Description_uq req))\<rparr>)"
  using assms
  by (simp add: updatePost_def getUserIdFromToken_def UpdatePost_def no_faults_def Let_def)

lemma deletePost_unresolved:
  assumes "Atoi idParam = (postID, None)"
    and "FetchAuthorIDByPostID no_faults d postID = (a, None)"
  shows "deletePost no_faults no_faults (TokenErr i e) idParam d =
     (if a \<noteq> i
      then \<lparr>out_resp = [(400, ErrorPostResponse cannot_read_id), (403, ErrorPostResponse ''Forbidden'')],
            out_panic = False, out_db = d\<rparr>
      else \<lparr>out_resp = [(400, ErrorPostResponse cannot_read_id), (200, SuccessPostResponse ''Post Deleted'')],
            out_panic = False, out_db = snd (DeletePostByID no_faults d postID)\<rparr>)"
  using assms
  by (simp add: deletePost_def getUserIdFromToken_def DeletePostByID_def no_faults_def Let_def)

text \<open>
  C3 (the code departs from it). When the token decoder returns an error, \<open>createPost\<close>,
  \<open>updatePost\<close> and \<open>deletePost\<close> write the 400 response and go on, because the branch has
  no \<open>return\<close>: \<open>createPost\<close> inserts the post under the id that came with the error and
  writes 200 after the 400; \<open>updatePost\<close> and \<open>deletePost\<close> compare the post's author with
  that id and, when they are equal, change the table.
\<close>

theorem post_writes_continue_without_identity:
  assumes "Validate (Title_cq req)" and "Validate (Description_cq req)"
    and "Validate (Title_uq ureq)" and "Validate (Description_uq ureq)"
    and "Atoi idParam = (ID_uq ureq, None)"
    and "FetchAuthorIDByPostID no_faults d (ID_uq ureq) = (a, None)"
  shows
  "createPost no_faults now Validate (TokenErr i e) (Some req) d =
     \<lparr>out_resp = [(400, ErrorPostResponse cannot_read_id),
                  (200, CreatePostResponse (next_post_id (posts d)) ''Post Created'')],
      out_panic = False,
      out_db = d\<lparr>posts := posts d @
                 [\<lparr>id_p = next_post_id (posts d), author_id_p = i, category_id_p = CategoryID_cq req,
                   title_p = Title_cq req, desc_p = Description_cq req, created_at_p = now\<rparr>]\<rparr>\<rparr> \<and>
   updatePost no_faults no_faults Validate (TokenErr i e) (Some ureq) d =
     (if a \<noteq> i
      then \<lparr>out_resp = [(400, ErrorPostResponse cannot_read_id), (403, ErrorPostResponse ''Forbidden'')],
            out_panic = False, out_db = d\<rparr>
      else \<lparr>out_resp = [(400, ErrorPostResponse cannot_read_id), (200, SuccessPostResponse ''Post Updated'')],
            out_panic = False,
            out_db = snd (UpdatePost no_faults d (ID_uq ureq) (CategoryID_uq ureq) (Title_uq ureq)
                            (Description_uq ureq))\<rparr>) \<and>
   deletePost no_faults no_faults (TokenErr i e) idParam d =
     (if a \<noteq> i
      then \<lparr>out_resp = [(400, ErrorPostResponse cannot_read_id), (403, ErrorPostResponse ''Forbidden'')],
            out_panic = False, out_db = d\<rparr>
      else \<lparr>out_resp = [(400, ErrorPostResponse cannot_read_id), (200, SuccessPostResponse ''Post Deleted'')],
            out_panic = False, out_db = snd (DeletePostByID no_faults d (ID_uq ureq))\<rparr>)"
  using createPost_unresolved [OF assms(1,2)] updatePost_unresolved [OF assms(3,4,6)]
    deletePost_unresolved [OF assms(5,6)]
  by simp

theorem post_writes_continue_without_identity_witness:
  "out_resp (createPost no_faults 100 (\<lambda>t. True) (TokenErr 0 ''token is expired'') (Some example_create) example_db)
     = [(400, ErrorPostResponse cannot_read_id), (200, CreatePostResponse 3 ''Post Created'')] \<and>
   map (\<lambda>p. (id_p p, author_id_p p))
     (posts (out_db (createPost no_faults 100 (\<lambda>t. True) (TokenErr 0 ''token is expired'')
        (Some example_create) example_db))) = [(1, 5), (2, 6), (3, 0)] \<and>
   out_resp (deletePost no_faults no_faults (TokenErr 0 ''token is expired'') ''1'' example_db)
     = [(400, ErrorPostResponse cannot_read_id), (403, ErrorPostResponse ''Forbidden'')] \<and>
   out_resp (updatePost no_faults no_faults (\<lambda>t. True) (TokenErr 0 ''token is expired'')
        (Some (example_update 1)) example_db)
     = [(400, ErrorPostResponse cannot_read_id), (403, ErrorPostResponse ''Forbidden'')]"
proof -
  have v: "(\<lambda>t. True) (Title_cq example_create)" "(\<lambda>t. True) (Description_cq example_create)"
    "(\<lambda>t. True) (Title_uq (example_update 1))" "(\<lambda>t. True) (Description_uq (example_update 1))"
    by simp_all
  have a1: "Atoi ''1'' = (ID_uq (example_update 1), None)"
    by (simp add: Atoi_small example_update_def)
  have l: "FetchAuthorIDByPostID no_faults example_db (ID_uq (example_update 1)) = (5, None)"
    by (simp add: FetchAuthorIDByPostID_def no_faults_def example_db_def empty_db_def example_update_def)
  have n: "next_post_id (posts example_db) = 3"
    by (simp add: next_post_id_def example_db_def empty_db_def)
  show ?thesis
    using post_writes_continue_without_identity [OF v a1 l, of 100 0 "''token is expired''"] n
    by (simp add: example_db_def empty_db_def)
qed

text \<open>
  C2 (the code departs from it). \<open>readPosts\<close> takes its identity from
  \<open>getUserIDAvoidPanic\<close>, which drops the error: with \<open>me=true\<close> and no resolved identity it
  does not reject the request but asks the store for the posts of the author id that came
  with the error (of author 0 after a panic of the decoder) and answers 200. The
  questionnaire list handler rejects the same request with status 400.
\<close>

theorem readPosts_me_without_identity:
  "readPosts_query (TokenErr i e) (no_query\<lparr>me_q := Some ''true''\<rparr>)
     = Inr (20, 0, i, ''created_at DESC'', ''AND author_id = '' @ int_dec i) \<and>
   readPosts_query TokenPanic (no_query\<lparr>me_q := Some ''true''\<rparr>)
     = Inr (20, 0, 0, ''created_at DESC'', ''AND author_id = 0'') \<and>
   (\<exists>b. readPosts no_faults eng fmt d (TokenErr i e) (no_query\<lparr>me_q := Some ''true''\<rparr>) = [(200, b)]) \<and>
   ReadAllQuestionnaires repo [] tok (no_query\<lparr>me_q := Some ''true''\<rparr>)
     = q_reply (400, H_error ''invalid token'')"
proof -
  have z: "int_dec 0 = ''0''" by code_simp
  have q: "readPosts_query t (no_query\<lparr>me_q := Some ''true''\<rparr>)
     = Inr (20, 0, getUserIDAvoidPanic t, ''created_at DESC'', ''AND author_id = '' @ int_dec (getUserIDAvoidPanic t))" for t
    by (simp add: readPosts_query_def no_query_def DefaultQuery_def Atoi_0 Atoi_20 readPosts_sort_def
        ParseBool_def Let_def)
  have r: "\<exists>b. readPosts no_faults eng fmt d (TokenErr i e) (no_query\<lparr>me_q := Some ''true''\<rparr>) = [(200, b)]"
    by (simp add: readPosts_def q FetchAllPost_def no_faults_def Let_def)
  have s: "ReadAllQuestionnaires repo [] tok (no_query\<lparr>me_q := Some ''true''\<rparr>)
     = q_reply (400, H_error ''invalid token'')"
    by (simp add: ReadAllQuestionnaires_def ReadAllQuestionnaires_query_def no_query_def DefaultQuery_def
        Atoi_0 questionnaires_sort_def ParseBool_def)
  show ?thesis
    using q [of "TokenErr i e"] q [of TokenPanic] r s z
    by (simp add: getUserIDAvoidPanic_def)
qed

lemma upload_unit_good:
  assumes "\<not> mu_held st"
  shows "upload_unit postID (good_file name t) st =
     st\<lparr>up_db := (up_db st)\<lparr>post_images := post_images (up_db st) @
        [\<lparr>id_pi = next_image_id (post_images (up_db st)), post_id_pi = postID,
          path_pi = Some (fileLocation postID (good_file name t))\<rparr>]\<rparr>\<rparr>"
  using assms
  by (simp add: upload_unit_def good_file_def InsertPostImage_def no_faults_def Let_def)

lemma upload_unit_waits:
  assumes "mu_held st"
  shows "upload_unit postID (good_file name t) st = st\<lparr>waiting := Suc (waiting st)\<rparr>"
  using assms by (simp add: upload_unit_def good_file_def)

lemma upload_unit_begin_fails:
  assumes "\<not> mu_held st"
  shows "upload_unit postID ((good_file name t)\<lparr>insert_faults := no_faults\<lparr>f_begin := Some e\<rparr>\<rparr>) st =
     st\<lparr>up_db := up_db st, up_resp := up_resp st @ [(500, ErrorPostResponse e)], mu_held := True\<rparr>"
  using assms
  by (simp add: upload_unit_def good_file_def InsertPostImage_def no_faults_def Let_def)

text \<open>
  C9 (the code departs from it). When \<open>InsertPostImage\<close> returns an error for one file,
  which it does when \<open>db.Begin\<close> fails, the goroutine of that file returns between
  \<open>mu.Lock\<close> and \<open>mu.Unlock\<close>. A sibling that reaches \<open>mu.Lock\<close> later waits for ever: its
  image is stored but never recorded, and the handler, waiting in \<open>wg.Wait\<close>, never answers.
  Here the first of two files fails in \<open>db.Begin\<close> and the second is sound.
\<close>

theorem upload_failure_blocks_sibling:
  "Atoi idParam = (postID, None) \<Longrightarrow>
   uploadPostImages idParam None None
       [(good_file n1 t1)\<lparr>insert_faults := no_faults\<lparr>f_begin := Some e\<rparr>\<rparr>, good_file n2 t2] d
     = (\<lparr>up_db = d, up_resp = [(500, ErrorPostResponse e)], mu_held = True, waiting = 1\<rparr>, None)"
proof -
  assume a: "Atoi idParam = (postID, None)"
  let ?st0 = "\<lparr>up_db = d, up_resp = [], mu_held = False, waiting = 0\<rparr>"
  have 1: "upload_unit postID ((good_file n1 t1)\<lparr>insert_faults := no_faults\<lparr>f_begin := Some e\<rparr>\<rparr>) ?st0
         = \<lparr>up_db = d, up_resp = [(500, ErrorPostResponse e)], mu_held = True, waiting = 0\<rparr>"
    by (simp add: upload_unit_begin_fails)
  have 2: "upload_unit postID (good_file n2 t2)
             \<lparr>up_db = d, up_resp = [(500, ErrorPostResponse e)], mu_held = True, waiting = 0\<rparr>
         = \<lparr>up_db = d, up_resp = [(500, ErrorPostResponse e)], mu_held = True, waiting = 1\<rparr>"
    by (simp add: upload_unit_waits)
  show ?thesis
    by (simp add: uploadPostImages_def a Let_def 1 2)
qed

theorem upload_failure_blocks_sibling_witness:
  "Atoi ''1'' = (1, None) \<and>
   post_images (up_db (fst (uploadPostImages ''1'' None None
       [(good_file ''a.png'' 10)\<lparr>insert_faults := no_faults\<lparr>f_begin := Some ''database is closed''\<rparr>\<rparr>,
        good_file ''b.png'' 11] example_db))) = post_images example_db \<and>
   waiting (fst (uploadPostImages ''1'' None None
       [(good_file ''a.png'' 10)\<lparr>insert_faults := no_faults\<lparr>f_begin := Some ''database is closed''\<rparr>\<rparr>,
        good_file ''b.png'' 11] example_db)) = 1 \<and>
   snd (uploadPostImages ''1'' None None
       [(good_file ''a.png'' 10)\<lparr>insert_faults := no_faults\<lparr>f_begin := Some ''database is closed''\<rparr>\<rparr>,
        good_file ''b.png'' 11] example_db) = None \<and>
   map post_id_pi (post_images (up_db (fst (uploadPostImages ''1'' None None
       [good_file ''b.png'' 11,
        (good_file ''a.png'' 10)\<lparr>insert_faults := no_faults\<lparr>f_begin := Some ''database is closed''\<rparr>\<rparr>]
       example_db)))) = [1, 1, 1]"
proof -
  have a: "Atoi ''1'' = (1, None)" by (rule Atoi_small)
  have o: "map post_id_pi (post_images (up_db (fst (uploadPostImages ''1'' None None
       [good_file ''b.png'' 11,
        (good_file ''a.png'' 10)\<lparr>insert_faults := no_faults\<lparr>f_begin := Some ''database is closed''\<rparr>\<rparr>]
       example_db)))) = [1, 1, 1]"
    by (simp add: uploadPostImages_def a Let_def upload_unit_good upload_unit_begin_fails
          example_db_def empty_db_def)
  show ?thesis
    using a o upload_failure_blocks_sibling [OF a, of "''database is closed''" "''a.png''" 10 "''b.png''" 11 example_db]
    by simp
qed

lemma upload_unit_tolerated_failure:
  assumes "open_err file \<noteq> None \<or> create_err file \<noteq> None \<or> copy_err file \<noteq> None \<or>
           (f_begin (insert_faults file) = None \<and>
            (f_exec (insert_faults file) \<noteq> None \<or> f_commit (insert_faults file) \<noteq> None))"
  shows "up_db (upload_unit postID file st) = up_db st \<and>
         mu_held (upload_unit postID file st) = mu_held st \<and>
         (\<not> mu_held st \<longrightarrow> waiting (upload_unit postID file st) = waiting st)"
  using assms
  by (auto simp: upload_unit_def InsertPostImage_def Let_def split: option.splits)


















end
